theory Spec2Isabelle
  imports Complex_Main "HOL-Library.Word" "HOL-Library.Monad_Syntax"
begin

section \<open>Data model\<close>

text \<open>
  The scene manager of the course projects (\<^verbatim>\<open>SceneManager.cpp\<close>, Modules 3, 4 and 7).
  The code never computes on \<^verbatim>\<open>float\<close> values itself: it hands literals to GLM and to the
  shader manager. A \<^verbatim>\<open>float\<close> is therefore carried as the number its literal denotes, and
  every GLM operation is a parameter of the model (record \<open>backend\<close>), so that no property
  of floating-point arithmetic is assumed anywhere.
\<close>

type_synonym vec2 = "real \<times> real"
type_synonym vec3 = "real \<times> real \<times> real"
type_synonym vec4 = "real \<times> real \<times> real \<times> real"

text \<open>\<^verbatim>\<open>GLuint\<close> / \<^verbatim>\<open>uint32_t\<close>: the field \<^verbatim>\<open>ID\<close> is passed to
  \<^verbatim>\<open>glGenTextures(1, &m_textureIDs[i].ID)\<close>.\<close>

type_synonym GLuint = "32 word"

record TEXTURE_INFO =
  tag :: string
  ID :: GLuint

record OBJECT_MATERIAL =
  ambientColor :: vec3
  ambientStrength :: real
  diffuseColor :: vec3
  specularColor :: vec3
  shininess :: real
  tag :: string

datatype pointer = NULL | Ptr nat

datatype GLenum =
    GL_TEXTURE_2D
  | GL_TEXTURE_WRAP_S | GL_TEXTURE_WRAP_T
  | GL_TEXTURE_MIN_FILTER | GL_TEXTURE_MAG_FILTER
  | GL_CLAMP_TO_EDGE | GL_REPEAT | GL_LINEAR
  | GL_RGB8 | GL_RGB | GL_RGBA8 | GL_RGBA
  | GL_UNSIGNED_BYTE

datatype mesh =
    PlaneMesh | CylinderMesh | BoxMesh | ConeMesh | SphereMesh
  | TorusMesh | ExtraTorusMesh1 | QuarterTorusMesh real

text \<open>The three messages written to \<^verbatim>\<open>std::cout\<close> by \<^verbatim>\<open>CreateGLTexture\<close>.\<close>

datatype diagnostic =
    Successfully_loaded_image string int int int
  | Not_implemented_to_handle_image int
  | Could_not_load_image string

text \<open>
  Every call that leaves the scene manager: to stb_image, to OpenGL, to the shader manager
  and to the mesh library. \<open>glActiveTexture i\<close> stands for
  \<^verbatim>\<open>glActiveTexture(GL_TEXTURE0 + i)\<close>. \<open>glDeleteTextures\<close> is the deletion entry point
  of OpenGL; no function of the scene manager issues it.
\<close>

datatype 'm call =
    stbi_set_flip_vertically_on_load bool
  | stbi_image_free
  | cout diagnostic
  | glGenTextures int
  | glDeleteTextures int GLuint
  | glBindTexture GLenum GLuint
  | glTexParameteri GLenum GLenum GLenum
  | glTexImage2D GLenum int GLenum int int int GLenum GLenum
  | glGenerateMipmap GLenum
  | glActiveTexture int
  | glPolygonOffset real real
  | setMat4Value string 'm
  | setIntValue string int
  | setVec2Value string vec2
  | setVec4Value string vec4
  | setSampler2DValue string int
  | DrawMesh mesh

text \<open>
  The external collaborators, as parameters: the image decoder (\<open>stbi_load\<close> gives width,
  height and channel count of the decoded file, \<open>None\<close> for the null pointer), the texture
  names OpenGL hands out (\<open>texture_name n\<close> is the name written by the \<open>n\<close>-th
  \<^verbatim>\<open>glGenTextures\<close> call), and GLM over a matrix type \<open>'m\<close>.
\<close>

record 'm backend =
  stbi_load :: "string \<Rightarrow> (int \<times> int \<times> int) option"
  texture_name :: "nat \<Rightarrow> GLuint"
  glm_scale :: "vec3 \<Rightarrow> 'm"
  glm_rotate :: "real \<Rightarrow> vec3 \<Rightarrow> 'm"
  glm_translate :: "vec3 \<Rightarrow> 'm"
  glm_radians :: "real \<Rightarrow> real"
  mat_mul :: "'m \<Rightarrow> 'm \<Rightarrow> 'm"

text \<open>
  The members of \<^verbatim>\<open>SceneManager\<close> that the modelled methods use, together with the history
  of the backend: the calls \<open>issued\<close> so far, in program order, and the number of texture
  names \<open>generated\<close> so far. \<open>m_textureIDs\<close> is the array \<^verbatim>\<open>m_textureIDs[16]\<close>; its bound is the
  length of the list, which the constructor sets to 16 and no method changes.
\<close>

record 'm state =
  m_pShaderManager :: pointer
  m_textureIDs :: "TEXTURE_INFO list"
  m_loadedTextures :: int
  m_objectMaterials :: "OBJECT_MATERIAL list"
  issued :: "'m call list"
  generated :: nat

abbreviation g_ModelName :: string where "g_ModelName \<equiv> ''model''"
abbreviation g_ColorValueName :: string where "g_ColorValueName \<equiv> ''objectColor''"
abbreviation g_TextureValueName :: string where "g_TextureValueName \<equiv> ''objectTexture''"
abbreviation g_UseTextureName :: string where "g_UseTextureName \<equiv> ''bUseTexture''"

definition emit :: "'m call \<Rightarrow> 'm state \<Rightarrow> 'm state" where
  "emit c s = s\<lparr>issued := issued s @ [c]\<rparr>"

text \<open>\<^verbatim>\<open>glGenTextures(1, &name)\<close>: the call is issued and the next name comes back.\<close>

definition gen_texture :: "'m backend \<Rightarrow> 'm state \<Rightarrow> GLuint \<times> 'm state" where
  "gen_texture E s =
     (texture_name E (generated s),
      emit (glGenTextures 1) (s\<lparr>generated := generated s + 1\<rparr>))"

text \<open>
  Indexing \<^verbatim>\<open>m_textureIDs[i]\<close>. C++ does not check the index: an access outside the array
  is undefined behaviour, which the model reports as \<open>None\<close>.
\<close>

definition in_bounds :: "'m state \<Rightarrow> int \<Rightarrow> bool" where
  "in_bounds s i = (0 \<le> i \<and> i < int (length (m_textureIDs s)))"

definition texture_at :: "'m state \<Rightarrow> int \<Rightarrow> TEXTURE_INFO option" where
  "texture_at s i = (if in_bounds s i then Some (m_textureIDs s ! nat i) else None)"

section \<open>Constructor\<close>

text \<open>Module 7: sixteen entries with tag \<^verbatim>\<open>"/0"\<close> and ID \<^verbatim>\<open>-1\<close>, no texture loaded.\<close>

definition SceneManager :: "pointer \<Rightarrow> 'm state" where
  "SceneManager pShaderManager =
     \<lparr> m_pShaderManager = pShaderManager,
       m_textureIDs = replicate 16 \<lparr> TEXTURE_INFO.tag = ''/0'', ID = - 1 \<rparr>,
       m_loadedTextures = 0,
       m_objectMaterials = [],
       issued = [],
       generated = 0 \<rparr>"

section \<open>Texture registry\<close>

text \<open>
  \<^verbatim>\<open>CreateGLTexture\<close>. Modules 4 and 7 differ in the wrap parameter only (\<open>GL_REPEAT\<close>
  against \<open>GL_CLAMP_TO_EDGE\<close>), which is the argument \<open>wrap\<close>. The result is the returned
  \<^verbatim>\<open>bool\<close> with the state after the call, or \<open>None\<close> when the store to
  \<^verbatim>\<open>m_textureIDs[m_loadedTextures]\<close> is outside the array.
\<close>

definition register_texture :: "GLuint \<Rightarrow> string \<Rightarrow> 'm state \<Rightarrow> (bool \<times> 'm state) option" where
  \<comment> \<open>the statements after the \<^verbatim>\<open>glTexImage2D\<close> upload, up to \<^verbatim>\<open>return true\<close>\<close>
  "register_texture textureID tg s =
     (let s = emit (glGenerateMipmap GL_TEXTURE_2D) s;
          s = emit stbi_image_free s;
          s = emit (glBindTexture GL_TEXTURE_2D 0) s
      in if in_bounds s (m_loadedTextures s)
         then Some (True,
           s\<lparr> m_textureIDs :=
                (m_textureIDs s)[nat (m_loadedTextures s) :=
                   \<lparr> TEXTURE_INFO.tag = tg, ID = textureID \<rparr>],
              m_loadedTextures := m_loadedTextures s + 1 \<rparr>)
         else None)"

definition CreateGLTexture ::
  "GLenum \<Rightarrow> 'm backend \<Rightarrow> string \<Rightarrow> string \<Rightarrow> 'm state \<Rightarrow> (bool \<times> 'm state) option" where
  "CreateGLTexture wrap E filename tg s =
     (let s = emit (stbi_set_flip_vertically_on_load True) s in
      case stbi_load E filename of
        Some (width, height, colorChannels) \<Rightarrow>
          (let s = emit (cout (Successfully_loaded_image filename width height colorChannels)) s;
               (textureID, s) = gen_texture E s;
               s = emit (glBindTexture GL_TEXTURE_2D textureID) s;
               s = emit (glTexParameteri GL_TEXTURE_2D GL_TEXTURE_WRAP_S wrap) s;
               s = emit (glTexParameteri GL_TEXTURE_2D GL_TEXTURE_WRAP_T wrap) s;
               s = emit (glTexParameteri GL_TEXTURE_2D GL_TEXTURE_MIN_FILTER GL_LINEAR) s;
               s = emit (glTexParameteri GL_TEXTURE_2D GL_TEXTURE_MAG_FILTER GL_LINEAR) s
           in
             if colorChannels = 3 then
               register_texture textureID tg
                 (emit (glTexImage2D GL_TEXTURE_2D 0 GL_RGB8 width height 0 GL_RGB GL_UNSIGNED_BYTE) s)
             else if colorChannels = 4 then
               register_texture textureID tg
                 (emit (glTexImage2D GL_TEXTURE_2D 0 GL_RGBA8 width height 0 GL_RGBA GL_UNSIGNED_BYTE) s)
             else Some (False, emit (cout (Not_implemented_to_handle_image colorChannels)) s))
      | None \<Rightarrow> Some (False, emit (cout (Could_not_load_image filename)) s))"

text \<open>A run of registrations, in order, with the value each call returned.\<close>

fun CreateGLTextures ::
  "GLenum \<Rightarrow> 'm backend \<Rightarrow> (string \<times> string) list \<Rightarrow> 'm state \<Rightarrow> (bool list \<times> 'm state) option" where
  "CreateGLTextures wrap E [] s = Some ([], s)"
| "CreateGLTextures wrap E ((filename, tg) # rest) s =
     (case CreateGLTexture wrap E filename tg s of
        None \<Rightarrow> None
      | Some (ok, s') \<Rightarrow>
          (case CreateGLTextures wrap E rest s' of
             None \<Rightarrow> None
           | Some (oks, s'') \<Rightarrow> Some (ok # oks, s'')))"

text \<open>\<^verbatim>\<open>DestroyGLTextures\<close>: the loop over the used slots.\<close>

function DestroyGLTextures_loop :: "'m backend \<Rightarrow> int \<Rightarrow> 'm state \<Rightarrow> 'm state option" where
  "DestroyGLTextures_loop E i s =
     (if i < m_loadedTextures s then
        (if in_bounds s i then
           (let (name, s') = gen_texture E s in
              DestroyGLTextures_loop E (i + 1)
                (s'\<lparr> m_textureIDs :=
                      (m_textureIDs s')[nat i := (m_textureIDs s' ! nat i)\<lparr> ID := name \<rparr>] \<rparr>))
         else None)
      else Some s)"
  by pat_completeness auto
termination
  by (relation "measure (\<lambda>(E, i, s). nat (m_loadedTextures s - i))")
     (auto simp: gen_texture_def emit_def)

definition DestroyGLTextures :: "'m backend \<Rightarrow> 'm state \<Rightarrow> 'm state option" where
  "DestroyGLTextures E s = DestroyGLTextures_loop E 0 s"

text \<open>
  \<^verbatim>\<open>FindTextureID\<close> and \<^verbatim>\<open>FindTextureSlot\<close>: the \<^verbatim>\<open>while\<close> loop over
  \<open>(result, index, bFound)\<close>. \<^verbatim>\<open>tag.compare(tag) == 0\<close> is equality of the strings;
  the \<^verbatim>\<open>uint32_t\<close> ID is converted to the \<^verbatim>\<open>int\<close> result.
\<close>

function FindTextureID_loop :: "'m state \<Rightarrow> string \<Rightarrow> int \<Rightarrow> int \<Rightarrow> bool \<Rightarrow> int option" where
  "FindTextureID_loop s tg textureID index bFound =
     (if index < m_loadedTextures s \<and> bFound = False then
        (case texture_at s index of
           None \<Rightarrow> None
         | Some e \<Rightarrow>
             if TEXTURE_INFO.tag e = tg
             then FindTextureID_loop s tg (sint (ID e)) index True
             else FindTextureID_loop s tg textureID (index + 1) bFound)
      else Some textureID)"
  by pat_completeness auto
termination
  by (relation "measure (\<lambda>(s, tg, textureID, index, bFound).
        if bFound then 0 else nat (m_loadedTextures s - index) + 1)") auto

definition FindTextureID :: "'m state \<Rightarrow> string \<Rightarrow> int option" where
  "FindTextureID s tg = FindTextureID_loop s tg (- 1) 0 False"

function FindTextureSlot_loop :: "'m state \<Rightarrow> string \<Rightarrow> int \<Rightarrow> int \<Rightarrow> bool \<Rightarrow> int option" where
  "FindTextureSlot_loop s tg textureSlot index bFound =
     (if index < m_loadedTextures s \<and> bFound = False then
        (case texture_at s index of
           None \<Rightarrow> None
         | Some e \<Rightarrow>
             if TEXTURE_INFO.tag e = tg
             then FindTextureSlot_loop s tg index index True
             else FindTextureSlot_loop s tg textureSlot (index + 1) bFound)
      else Some textureSlot)"
  by pat_completeness auto
termination
  by (relation "measure (\<lambda>(s, tg, textureSlot, index, bFound).
        if bFound then 0 else nat (m_loadedTextures s - index) + 1)") auto

definition FindTextureSlot :: "'m state \<Rightarrow> string \<Rightarrow> int option" where
  "FindTextureSlot s tg = FindTextureSlot_loop s tg (- 1) 0 False"

section \<open>Material registry\<close>

text \<open>
  \<^verbatim>\<open>FindMaterial(tag, material)\<close>: the loop over \<open>(index, bFound, material)\<close>, where
  \<open>material\<close> is the caller's object behind the reference. The five reflectance fields are
  copied, the tag is not. \<open>index\<close> starts at 0 and only grows, so its comparison with the
  unsigned \<^verbatim>\<open>size()\<close> is the comparison of the numbers.
\<close>

function FindMaterial_loop ::
  "OBJECT_MATERIAL list \<Rightarrow> string \<Rightarrow> int \<Rightarrow> bool \<Rightarrow> OBJECT_MATERIAL \<Rightarrow> bool \<times> OBJECT_MATERIAL" where
  "FindMaterial_loop ms tg index bFound material =
     (if index < int (length ms) \<and> bFound = False then
        (if OBJECT_MATERIAL.tag (ms ! nat index) = tg
         then FindMaterial_loop ms tg index True
                (material\<lparr> ambientColor := ambientColor (ms ! nat index),
                           ambientStrength := ambientStrength (ms ! nat index),
                           diffuseColor := diffuseColor (ms ! nat index),
                           specularColor := specularColor (ms ! nat index),
                           shininess := shininess (ms ! nat index) \<rparr>)
         else FindMaterial_loop ms tg (index + 1) bFound material)
      else (bFound, material))"
  by pat_completeness auto
termination
  by (relation "measure (\<lambda>(ms, tg, index, bFound, material).
        if bFound then 0 else nat (int (length ms) - index) + 1)") auto

text \<open>The value returned after the loop is the constant \<^verbatim>\<open>true\<close>, not \<open>bFound\<close>.\<close>

definition FindMaterial :: "'m state \<Rightarrow> string \<Rightarrow> OBJECT_MATERIAL \<Rightarrow> bool \<times> OBJECT_MATERIAL" where
  "FindMaterial s tg material =
     (if length (m_objectMaterials s) = 0 then (False, material)
      else (let (bFound, material) = FindMaterial_loop (m_objectMaterials s) tg 0 False material
            in (True, material)))"

section \<open>Transformations and shader values\<close>

text \<open>\<^verbatim>\<open>translation * rotationX * rotationY * rotationZ * scale\<close> associates to the left.\<close>

definition SetTransformations ::
  "'m backend \<Rightarrow> vec3 \<Rightarrow> real \<Rightarrow> real \<Rightarrow> real \<Rightarrow> vec3 \<Rightarrow> 'm state \<Rightarrow> 'm state" where
  "SetTransformations E scaleXYZ XrotationDegrees YrotationDegrees ZrotationDegrees positionXYZ s =
     (let scale = glm_scale E scaleXYZ;
          rotationX = glm_rotate E (glm_radians E XrotationDegrees) (1, 0, 0);
          rotationY = glm_rotate E (glm_radians E YrotationDegrees) (0, 1, 0);
          rotationZ = glm_rotate E (glm_radians E ZrotationDegrees) (0, 0, 1);
          translation = glm_translate E positionXYZ;
          modelView =
            mat_mul E (mat_mul E (mat_mul E (mat_mul E translation rotationX) rotationY) rotationZ)
              scale
      in if NULL \<noteq> m_pShaderManager s then emit (setMat4Value g_ModelName modelView) s else s)"

definition SetShaderColor :: "real \<Rightarrow> real \<Rightarrow> real \<Rightarrow> real \<Rightarrow> 'm state \<Rightarrow> 'm state" where
  "SetShaderColor redColorValue greenColorValue blueColorValue alphaValue s =
     (let currentColor = (redColorValue, greenColorValue, blueColorValue, alphaValue)
      in if NULL \<noteq> m_pShaderManager s
         then emit (setVec4Value g_ColorValueName currentColor) (emit (setIntValue g_UseTextureName 0) s)
         else s)"

definition SetShaderTexture :: "string \<Rightarrow> 'm state \<Rightarrow> 'm state option" where
  "SetShaderTexture textureTag s =
     (if NULL \<noteq> m_pShaderManager s then
        do {
          let s = emit (setIntValue g_UseTextureName 1) s;
          textureSlot \<leftarrow> FindTextureSlot s textureTag;
          if textureSlot \<ge> 0 then
            do {
              let s = emit (glActiveTexture textureSlot) s;
              e \<leftarrow> texture_at s textureSlot;
              let s = emit (glBindTexture GL_TEXTURE_2D (ID e)) s;
              let s = emit (setSampler2DValue g_TextureValueName textureSlot) s;
              Some s
            }
          else Some s
        }
      else Some s)"

definition SetTextureUVScale :: "real \<Rightarrow> real \<Rightarrow> 'm state \<Rightarrow> 'm state" where
  "SetTextureUVScale u v s =
     (if NULL \<noteq> m_pShaderManager s then emit (setVec2Value ''UVscale'' (u, v)) s else s)"

section \<open>Scene scripts\<close>

text \<open>
  \<^verbatim>\<open>RenderScene\<close> of Module 3 and of Module 7, statement by statement: an assignment to a
  local is a \<open>let\<close>, a call of a method that indexes the texture array a bind, a call into
  the mesh library or OpenGL an \<open>emit\<close>.
\<close>

definition RenderScene_Module3 :: "'m backend \<Rightarrow> 'm state \<Rightarrow> 'm state option" where
  "RenderScene_Module3 E s =
     do {
       let XrotationDegrees = (0::real);
       let YrotationDegrees = (0::real);
       let ZrotationDegrees = (0::real);
       let scaleXYZ = (20, 1, 10);
       let XrotationDegrees = 0;
       let YrotationDegrees = 0;
       let ZrotationDegrees = 0;
       let positionXYZ = (0, 0, 0);
       let s = SetTransformations E scaleXYZ XrotationDegrees YrotationDegrees ZrotationDegrees positionXYZ s;
       let s = SetShaderColor 0.66667 0.77255 1 1 s;
       let s = emit (DrawMesh PlaneMesh) s;
       let scaleXYZ = (20, 1, 10);
       let XrotationDegrees = 90;
       let YrotationDegrees = 0;
       let ZrotationDegrees = 0;
       let positionXYZ = (0, 9, - 10);
       let s = SetTransformations E scaleXYZ XrotationDegrees YrotationDegrees ZrotationDegrees positionXYZ s;
       let s = SetShaderColor 0.66667 0.77255 1 1 s;
       let s = emit (DrawMesh PlaneMesh) s;
       let scaleXYZ = (2, 3, 2);
       let XrotationDegrees = 0;
       let YrotationDegrees = 90;
       let ZrotationDegrees = 0;
       let positionXYZ = (4, 0, 0);
       let s = SetTransformations E scaleXYZ XrotationDegrees YrotationDegrees ZrotationDegrees positionXYZ s;
       let s = SetShaderColor 0.4902 0.67843 1 1 s;
       let s = emit (DrawMesh CylinderMesh) s;
       let scaleXYZ = (2, 4.5, 2);
       let XrotationDegrees = 0;
       let YrotationDegrees = 90;
       let ZrotationDegrees = 0;
       let positionXYZ = (0, 0, 0);
       let s = SetTransformations E scaleXYZ XrotationDegrees YrotationDegrees ZrotationDegrees positionXYZ s;
       let s = SetShaderColor 0.4902 0.67843 1 1 s;
       let s = emit (DrawMesh CylinderMesh) s;
       let scaleXYZ = (2, 1.5, 2);
       let XrotationDegrees = 0;
       let YrotationDegrees = 90;
       let ZrotationDegrees = 0;
       let positionXYZ = (- 4, 0, 0);
       let s = SetTransformations E scaleXYZ XrotationDegrees YrotationDegrees ZrotationDegrees positionXYZ s;
       let s = SetShaderColor 0.4902 0.67843 1 1 s;
       let s = emit (DrawMesh CylinderMesh) s;
       let scaleXYZ = (2, 2, 2);
       let XrotationDegrees = 0;
       let YrotationDegrees = 45;
       let ZrotationDegrees = 0;
       let positionXYZ = (4, 4, 0);
       let s = SetTransformations E scaleXYZ XrotationDegrees YrotationDegrees ZrotationDegrees positionXYZ s;
       let s = SetShaderColor 0.83137 0.32549 0.32549 1 s;
       let s = emit (DrawMesh BoxMesh) s;
       let scaleXYZ = (1.25, 3.5, 1.25);
       let XrotationDegrees = 0;
       let YrotationDegrees = 0;
       let ZrotationDegrees = 0;
       let positionXYZ = (0, 4.5, 0);
       let s = SetTransformations E scaleXYZ XrotationDegrees YrotationDegrees ZrotationDegrees positionXYZ s;
       let s = SetShaderColor 1 1 0.2 1 s;
       let s = emit (DrawMesh ConeMesh) s;
       let scaleXYZ = (1.5, 1.5, 1.5);
       let XrotationDegrees = 0;
       let YrotationDegrees = 0;
       let ZrotationDegrees = 0;
       let positionXYZ = (- 4, 3, 0);
       let s = SetTransformations E scaleXYZ XrotationDegrees YrotationDegrees ZrotationDegrees positionXYZ s;
       let s = SetShaderColor 0.8 0.3 0.9 1 s;
       let s = emit (DrawMesh SphereMesh) s;
       Some s
     }"

definition RenderScene :: "'m backend \<Rightarrow> 'm state \<Rightarrow> 'm state option" where
  "RenderScene E s =
     do {
       let XrotationDegrees = (0::real);
       let YrotationDegrees = (0::real);
       let ZrotationDegrees = (0::real);
       let scaleXYZ = (20, 1, 10);
       let XrotationDegrees = 0;
       let YrotationDegrees = 0;
       let ZrotationDegrees = 0;
       let positionXYZ = (0, 0, 0);
       let s = SetTransformations E scaleXYZ XrotationDegrees YrotationDegrees ZrotationDegrees positionXYZ s;
       let s = SetShaderColor 1 1 1 1 s;
       let s = emit (DrawMesh PlaneMesh) s;
       let scaleXYZ = (20, 1, 10);
       let XrotationDegrees = 90;
       let YrotationDegrees = 0;
       let ZrotationDegrees = 0;
       let positionXYZ = (0, 10, - 10);
       let s = SetTransformations E scaleXYZ XrotationDegrees YrotationDegrees ZrotationDegrees positionXYZ s;
       let s = SetShaderColor 1 1 1 1 s;
       let s = emit (DrawMesh PlaneMesh) s;
       let scaleXYZ = (2, 0.25, 2);
       let XrotationDegrees = 0;
       let YrotationDegrees = 0;
       let ZrotationDegrees = 0;
       let positionXYZ = (10, 0, - 1.5);
       let s = SetTransformations E scaleXYZ XrotationDegrees YrotationDegrees ZrotationDegrees positionXYZ s;
       s \<leftarrow> SetShaderTexture ''oakWood'' s;
       let s = emit (DrawMesh CylinderMesh) s;
       let s = emit (glBindTexture GL_TEXTURE_2D 0) s;
       let scaleXYZ = (0.2, 5.2, 0.2);
       let XrotationDegrees = 0;
       let YrotationDegrees = 0;
       let ZrotationDegrees = 0;
       let positionXYZ = (10, 0.1, - 1.5);
       let s = SetTransformations E scaleXYZ XrotationDegrees YrotationDegrees ZrotationDegrees positionXYZ s;
       s \<leftarrow> SetShaderTexture ''oakWood'' s;
       let s = emit (DrawMesh CylinderMesh) s;
       let s = emit (glBindTexture GL_TEXTURE_2D 0) s;
       let scaleXYZ = (2, 2, 2);
       let XrotationDegrees = 90;
       let YrotationDegrees = 0;
       let ZrotationDegrees = 0;
       let positionXYZ = (10, 0.6, - 1.5);
       let s = SetTransformations E scaleXYZ XrotationDegrees YrotationDegrees ZrotationDegrees positionXYZ s;
       s \<leftarrow> SetShaderTexture ''ltbluePlastic'' s;
       let s = emit (DrawMesh TorusMesh) s;
       let s = emit (glBindTexture GL_TEXTURE_2D 0) s;
       let scaleXYZ = (1.75, 1.75, 1.75);
       let XrotationDegrees = 90;
       let YrotationDegrees = 0;
       let ZrotationDegrees = 0;
       let positionXYZ = (10, 1.7, - 1.5);
       let s = SetTransformations E scaleXYZ XrotationDegrees YrotationDegrees ZrotationDegrees positionXYZ s;
       s \<leftarrow> SetShaderTexture ''bluePlastic'' s;
       let s = emit (DrawMesh TorusMesh) s;
       let s = emit (glBindTexture GL_TEXTURE_2D 0) s;
       let scaleXYZ = (1.5, 1.5, 1.5);
       let XrotationDegrees = 90;
       let YrotationDegrees = 0;
       let ZrotationDegrees = 0;
       let positionXYZ = (10, 2.65, - 1.5);
       let s = SetTransformations E scaleXYZ XrotationDegrees YrotationDegrees ZrotationDegrees positionXYZ s;
       s \<leftarrow> SetShaderTexture ''magentaPlastic'' s;
       let s = emit (DrawMesh TorusMesh) s;
       let s = emit (glBindTexture GL_TEXTURE_2D 0) s;
       let scaleXYZ = (1.25, 1.25, 1.25);
       let XrotationDegrees = 90;
       let YrotationDegrees = 0;
       let ZrotationDegrees = 0;
       let positionXYZ = (10, 3.4, - 1.5);
       let s = SetTransformations E scaleXYZ XrotationDegrees YrotationDegrees ZrotationDegrees positionXYZ s;
       s \<leftarrow> SetShaderTexture ''redPlastic'' s;
       let s = emit (DrawMesh TorusMesh) s;
       let s = emit (glBindTexture GL_TEXTURE_2D 0) s;
       let scaleXYZ = (1, 1, 1);
       let XrotationDegrees = 90;
       let YrotationDegrees = 0;
       let ZrotationDegrees = 0;
       let positionXYZ = (10, 4.05, - 1.5);
       let s = SetTransformations E scaleXYZ XrotationDegrees YrotationDegrees ZrotationDegrees positionXYZ s;
       s \<leftarrow> SetShaderTexture ''orangePlastic'' s;
       let s = emit (DrawMesh TorusMesh) s;
       let scaleXYZ = (0.75, 0.75, 0.75);
       let XrotationDegrees = 90;
       let YrotationDegrees = 0;
       let ZrotationDegrees = 0;
       let positionXYZ = (10, 4.6, - 1.5);
       let s = SetTransformations E scaleXYZ XrotationDegrees YrotationDegrees ZrotationDegrees positionXYZ s;
       s \<leftarrow> SetShaderTexture ''greenPlastic'' s;
       let s = emit (DrawMesh ExtraTorusMesh1) s;
       let scaleXYZ = (1, 0.75, 10);
       let XrotationDegrees = 0;
       let YrotationDegrees = 90;
       let ZrotationDegrees = 0;
       let positionXYZ = (0, 0.35, - 3.5);
       let s = SetTransformations E scaleXYZ XrotationDegrees YrotationDegrees ZrotationDegrees positionXYZ s;
       s \<leftarrow> SetShaderTexture ''oakWood'' s;
       let s = emit (DrawMesh BoxMesh) s;
       let s = emit (glBindTexture GL_TEXTURE_2D 0) s;
       let scaleXYZ = (0.05, 5, 0.05);
       let XrotationDegrees = 0;
       let YrotationDegrees = 0;
       let ZrotationDegrees = 0;
       let positionXYZ = (4.25, 0.75, - 3.5);
       let s = SetTransformations E scaleXYZ XrotationDegrees YrotationDegrees ZrotationDegrees positionXYZ s;
       let s = SetTextureUVScale 0.1 0.1 s;
       s \<leftarrow> SetShaderTexture ''steelTexture'' s;
       let s = emit (DrawMesh CylinderMesh) s;
       let s = emit (glBindTexture GL_TEXTURE_2D 0) s;
       let scaleXYZ = (0.05, 5, 0.05);
       let XrotationDegrees = 0;
       let YrotationDegrees = 0;
       let ZrotationDegrees = 0;
       let positionXYZ = (- 4.25, 0.75, - 3.5);
       let s = SetTransformations E scaleXYZ XrotationDegrees YrotationDegrees ZrotationDegrees positionXYZ s;
       let s = SetTextureUVScale 0.1 0.1 s;
       s \<leftarrow> SetShaderTexture ''steelTexture'' s;
       let s = emit (DrawMesh CylinderMesh) s;
       let s = emit (glBindTexture GL_TEXTURE_2D 0) s;
       let scaleXYZ = (0.05, 8.1, 0.05);
       let XrotationDegrees = 0;
       let YrotationDegrees = 0;
       let ZrotationDegrees = 90;
       let positionXYZ = (4.05, 5.95, - 3.5);
       let s = SetTransformations E scaleXYZ XrotationDegrees YrotationDegrees ZrotationDegrees positionXYZ s;
       let s = SetTextureUVScale 0.1 0.1 s;
       s \<leftarrow> SetShaderTexture ''steelTexture'' s;
       let s = emit (DrawMesh CylinderMesh) s;
       let s = emit (glBindTexture GL_TEXTURE_2D 0) s;
       let scaleXYZ = (0.2, 0.2, 0.175);
       let XrotationDegrees = 0;
       let YrotationDegrees = 0;
       let ZrotationDegrees = 0;
       let positionXYZ = (4.05, 5.75, - 3.5);
       let s = SetTransformations E scaleXYZ XrotationDegrees YrotationDegrees ZrotationDegrees positionXYZ s;
       let s = SetTextureUVScale 0.1 0.1 s;
       s \<leftarrow> SetShaderTexture ''steelTexture'' s;
       let s = emit (DrawMesh (QuarterTorusMesh 0.2)) s;
       let s = emit (glBindTexture GL_TEXTURE_2D 0) s;
       let scaleXYZ = (0.2, 0.2, 0.175);
       let XrotationDegrees = 0;
       let YrotationDegrees = 0;
       let ZrotationDegrees = 90;
       let positionXYZ = (- 4.05, 5.75, - 3.5);
       let s = SetTransformations E scaleXYZ XrotationDegrees YrotationDegrees ZrotationDegrees positionXYZ s;
       let s = SetTextureUVScale 0.1 0.1 s;
       s \<leftarrow> SetShaderTexture ''steelTexture'' s;
       let s = emit (DrawMesh (QuarterTorusMesh 0.2)) s;
       let s = emit (glBindTexture GL_TEXTURE_2D 0) s;
       let scaleXYZ = (0.05, 3, 0.05);
       let XrotationDegrees = 0;
       let YrotationDegrees = 0;
       let ZrotationDegrees = 0;
       let positionXYZ = (2.5, 0.75, - 3.5);
       let s = SetTransformations E scaleXYZ XrotationDegrees YrotationDegrees ZrotationDegrees positionXYZ s;
       let s = SetTextureUVScale 0.1 0.1 s;
       s \<leftarrow> SetShaderTexture ''steelTexture'' s;
       let s = emit (DrawMesh CylinderMesh) s;
       let scaleXYZ = (0.05, 3, 0.05);
       let XrotationDegrees = 0;
       let YrotationDegrees = 0;
       let ZrotationDegrees = 0;
       let positionXYZ = (- 2.5, 0.75, - 3.5);
       let s = SetTransformations E scaleXYZ XrotationDegrees YrotationDegrees ZrotationDegrees positionXYZ s;
       let s = SetTextureUVScale 0.1 0.1 s;
       s \<leftarrow> SetShaderTexture ''steelTexture'' s;
       let s = emit (DrawMesh CylinderMesh) s;
       let scaleXYZ = (0.05, 4.75, 0.05);
       let XrotationDegrees = 0;
       let YrotationDegrees = 0;
       let ZrotationDegrees = 90;
       let positionXYZ = (2.375, 3.95, - 3.5);
       let s = SetTransformations E scaleXYZ XrotationDegrees YrotationDegrees ZrotationDegrees positionXYZ s;
       let s = SetTextureUVScale 0.1 0.1 s;
       s \<leftarrow> SetShaderTexture ''steelTexture'' s;
       let s = emit (DrawMesh CylinderMesh) s;
       let scaleXYZ = (0.2, 0.2, 0.175);
       let XrotationDegrees = 0;
       let YrotationDegrees = 0;
       let ZrotationDegrees = 0;
       let positionXYZ = (2.3, 3.75, - 3.5);
       let s = SetTransformations E scaleXYZ XrotationDegrees YrotationDegrees ZrotationDegrees positionXYZ s;
       let s = SetTextureUVScale 0.1 0.1 s;
       s \<leftarrow> SetShaderTexture ''steelTexture'' s;
       let s = emit (DrawMesh (QuarterTorusMesh 0.2)) s;
       let s = emit (glBindTexture GL_TEXTURE_2D 0) s;
       let scaleXYZ = (0.2, 0.2, 0.175);
       let XrotationDegrees = 0;
       let YrotationDegrees = 0;
       let ZrotationDegrees = 90;
       let positionXYZ = (- 2.3, 3.75, - 3.5);
       let s = SetTransformations E scaleXYZ XrotationDegrees YrotationDegrees ZrotationDegrees positionXYZ s;
       let s = SetTextureUVScale 0.1 0.1 s;
       s \<leftarrow> SetShaderTexture ''steelTexture'' s;
       let s = emit (DrawMesh (QuarterTorusMesh 0.2)) s;
       let s = emit (glBindTexture GL_TEXTURE_2D 0) s;
       let scaleXYZ = (0.75, 0.75, 0.75);
       let XrotationDegrees = 0;
       let YrotationDegrees = 0;
       let ZrotationDegrees = 0;
       let positionXYZ = (4.25, 1.5, - 3.5);
       let s = SetTransformations E scaleXYZ XrotationDegrees YrotationDegrees ZrotationDegrees positionXYZ s;
       let s = SetTextureUVScale 0.5 0.5 s;
       s \<leftarrow> SetShaderTexture ''bluePlastic'' s;
       let s = emit (DrawMesh SphereMesh) s;
       let s = emit (glBindTexture GL_TEXTURE_2D 0) s;
       let scaleXYZ = (0.75, 0.75, 0.75);
       let XrotationDegrees = 0;
       let YrotationDegrees = 0;
       let ZrotationDegrees = 0;
       let positionXYZ = (4.25, 3, - 3.5);
       let s = SetTransformations E scaleXYZ XrotationDegrees YrotationDegrees ZrotationDegrees positionXYZ s;
       let s = SetTextureUVScale 0.5 0.5 s;
       s \<leftarrow> SetShaderTexture ''ltbluePlastic'' s;
       let s = emit (DrawMesh SphereMesh) s;
       let s = emit (glBindTexture GL_TEXTURE_2D 0) s;
       let scaleXYZ = (0.75, 0.75, 0.75);
       let XrotationDegrees = 0;
       let YrotationDegrees = 0;
       let ZrotationDegrees = 0;
       let positionXYZ = (4.25, 4.5, - 3.5);
       let s = SetTransformations E scaleXYZ XrotationDegrees YrotationDegrees ZrotationDegrees positionXYZ s;
       let s = SetTextureUVScale 0.5 0.5 s;
       s \<leftarrow> SetShaderTexture ''greenPlastic'' s;
       let s = emit (DrawMesh SphereMesh) s;
       let s = emit (glBindTexture GL_TEXTURE_2D 0) s;
       let scaleXYZ = (0.75, 0.75, 0.75);
       let XrotationDegrees = 0;
       let YrotationDegrees = 0;
       let ZrotationDegrees = 0;
       let positionXYZ = (- 4.25, 1.5, - 3.5);
       let s = SetTransformations E scaleXYZ XrotationDegrees YrotationDegrees ZrotationDegrees positionXYZ s;
       let s = SetTextureUVScale 0.5 0.5 s;
       s \<leftarrow> SetShaderTexture ''redPlastic'' s;
       let s = emit (DrawMesh SphereMesh) s;
       let s = emit (glBindTexture GL_TEXTURE_2D 0) s;
       let scaleXYZ = (0.75, 0.75, 0.75);
       let XrotationDegrees = 0;
       let YrotationDegrees = 0;
       let ZrotationDegrees = 0;
       let positionXYZ = (- 4.25, 3, - 3.5);
       let s = SetTransformations E scaleXYZ XrotationDegrees YrotationDegrees ZrotationDegrees positionXYZ s;
       let s = SetTextureUVScale 0.5 0.5 s;
       s \<leftarrow> SetShaderTexture ''orangePlastic'' s;
       let s = emit (DrawMesh SphereMesh) s;
       let s = emit (glBindTexture GL_TEXTURE_2D 0) s;
       let scaleXYZ = (0.75, 0.75, 0.75);
       let XrotationDegrees = 0;
       let YrotationDegrees = 0;
       let ZrotationDegrees = 0;
       let positionXYZ = (2.375, 1.5, - 3.5);
       let s = SetTransformations E scaleXYZ XrotationDegrees YrotationDegrees ZrotationDegrees positionXYZ s;
       let s = SetTextureUVScale 0.5 0.5 s;
       s \<leftarrow> SetShaderTexture ''magentaPlastic'' s;
       let s = emit (DrawMesh SphereMesh) s;
       let s = emit (glBindTexture GL_TEXTURE_2D 0) s;
       let scaleXYZ = (0.75, 0.75, 0.75);
       let XrotationDegrees = 0;
       let YrotationDegrees = 0;
       let ZrotationDegrees = 0;
       let positionXYZ = (2.375, 3, - 3.5);
       let s = SetTransformations E scaleXYZ XrotationDegrees YrotationDegrees ZrotationDegrees positionXYZ s;
       let s = SetTextureUVScale 0.5 0.5 s;
       s \<leftarrow> SetShaderTexture ''redPlastic'' s;
       let s = emit (DrawMesh SphereMesh) s;
       let s = emit (glBindTexture GL_TEXTURE_2D 0) s;
       let scaleXYZ = (0.75, 0.75, 0.75);
       let XrotationDegrees = 0;
       let YrotationDegrees = 0;
       let ZrotationDegrees = 0;
       let positionXYZ = (0.75, 3.95, - 3.5);
       let s = SetTransformations E scaleXYZ XrotationDegrees YrotationDegrees ZrotationDegrees positionXYZ s;
       let s = SetTextureUVScale 0.5 0.5 s;
       s \<leftarrow> SetShaderTexture ''orangePlastic'' s;
       let s = emit (DrawMesh SphereMesh) s;
       let s = emit (glBindTexture GL_TEXTURE_2D 0) s;
       let scaleXYZ = (0.75, 0.75, 0.75);
       let XrotationDegrees = 0;
       let YrotationDegrees = 0;
       let ZrotationDegrees = 0;
       let positionXYZ = (- 0.75, 3.95, - 3.5);
       let s = SetTransformations E scaleXYZ XrotationDegrees YrotationDegrees ZrotationDegrees positionXYZ s;
       let s = SetTextureUVScale 0.5 0.5 s;
       s \<leftarrow> SetShaderTexture ''greenPlastic'' s;
       let s = emit (DrawMesh SphereMesh) s;
       let s = emit (glBindTexture GL_TEXTURE_2D 0) s;
       let scaleXYZ = (0.75, 0.75, 0.75);
       let XrotationDegrees = 0;
       let YrotationDegrees = 0;
       let ZrotationDegrees = 0;
       let positionXYZ = (- 2.375, 1.5, - 3.5);
       let s = SetTransformations E scaleXYZ XrotationDegrees YrotationDegrees ZrotationDegrees positionXYZ s;
       let s = SetTextureUVScale 0.5 0.5 s;
       s \<leftarrow> SetShaderTexture ''ltbluePlastic'' s;
       let s = emit (DrawMesh SphereMesh) s;
       let s = emit (glBindTexture GL_TEXTURE_2D 0) s;
       let scaleXYZ = (2, 2, 2);
       let XrotationDegrees = 0;
       let YrotationDegrees = 15;
       let ZrotationDegrees = 0;
       let positionXYZ = (- 0.75, 1, 0.75);
       let s = SetTransformations E scaleXYZ XrotationDegrees YrotationDegrees ZrotationDegrees positionXYZ s;
       let s = SetTextureUVScale 1 1 s;
       s \<leftarrow> SetShaderTexture ''ashWood'' s;
       let s = emit (DrawMesh BoxMesh) s;
       let scaleXYZ = (2.01, 2.01, 2.01);
       let XrotationDegrees = 0;
       let YrotationDegrees = 15;
       let ZrotationDegrees = 0;
       let positionXYZ = (- 0.7501, 1.01, 0.7501);
       let s = SetTransformations E scaleXYZ XrotationDegrees YrotationDegrees ZrotationDegrees positionXYZ s;
       let s = SetTextureUVScale 1 1 s;
       s \<leftarrow> SetShaderTexture ''letterA'' s;
       let s = emit (DrawMesh BoxMesh) s;
       let s = emit (glPolygonOffset (- 1) (- 1)) s;
       let s = emit (glBindTexture GL_TEXTURE_2D 0) s;
       let scaleXYZ = (2, 2, 2);
       let XrotationDegrees = 0;
       let YrotationDegrees = 45;
       let ZrotationDegrees = 0;
       let positionXYZ = (2, 1, 0);
       let s = SetTransformations E scaleXYZ XrotationDegrees YrotationDegrees ZrotationDegrees positionXYZ s;
       let s = SetTextureUVScale 1 1 s;
       s \<leftarrow> SetShaderTexture ''ashWood'' s;
       let s = emit (DrawMesh BoxMesh) s;
       let scaleXYZ = (2.01, 2.01, 2.01);
       let XrotationDegrees = 0;
       let YrotationDegrees = 45;
       let ZrotationDegrees = 0;
       let positionXYZ = (2.01, 1.01, 0.01);
       let s = SetTransformations E scaleXYZ XrotationDegrees YrotationDegrees ZrotationDegrees positionXYZ s;
       let s = SetTextureUVScale 1 1 s;
       s \<leftarrow> SetShaderTexture ''letterB'' s;
       let s = emit (DrawMesh BoxMesh) s;
       let s = emit (glPolygonOffset (- 1) (- 1)) s;
       let s = emit (glBindTexture GL_TEXTURE_2D 0) s;
       let scaleXYZ = (2, 2, 2);
       let XrotationDegrees = 0;
       let YrotationDegrees = 25;
       let ZrotationDegrees = 0;
       let positionXYZ = (0.75, 3, 0.75);
       let s = SetTransformations E scaleXYZ XrotationDegrees YrotationDegrees ZrotationDegrees positionXYZ s;
       let s = SetTextureUVScale 1 1 s;
       s \<leftarrow> SetShaderTexture ''ashWood'' s;
       let s = emit (DrawMesh BoxMesh) s;
       let scaleXYZ = (2.01, 2.01, 2.01);
       let XrotationDegrees = 0;
       let YrotationDegrees = 25;
       let ZrotationDegrees = 0;
       let positionXYZ = (0.7501, 3.01, 0.7501);
       let s = SetTransformations E scaleXYZ XrotationDegrees YrotationDegrees ZrotationDegrees positionXYZ s;
       s \<leftarrow> SetShaderTexture ''letterC'' s;
       let s = emit (DrawMesh BoxMesh) s;
       let s = emit (glPolygonOffset (- 1) (- 1)) s;
       let s = emit (glBindTexture GL_TEXTURE_2D 0) s;
       Some s
     }"

section \<open>Specification vocabulary\<close>

text \<open>The registry is within its array: what the constructor establishes.\<close>

definition registry_ok :: "'m state \<Rightarrow> bool" where
  "registry_ok s =
     (0 \<le> m_loadedTextures s \<and> m_loadedTextures s \<le> int (length (m_textureIDs s)))"

text \<open>The tags of the used slots, slot 0 first.\<close>

definition registered_tags :: "'m state \<Rightarrow> string list" where
  "registered_tags s = map TEXTURE_INFO.tag (take (nat (m_loadedTextures s)) (m_textureIDs s))"

text \<open>The tags of the registrations that returned \<^verbatim>\<open>true\<close>, in call order.\<close>

fun successful :: "(string \<times> string) list \<Rightarrow> bool list \<Rightarrow> string list" where
  "successful ((filename, tg) # regs) (ok # oks) =
     (if ok then tg # successful regs oks else successful regs oks)"
| "successful _ _ = []"

text \<open>Slot \<open>i\<close> is the first used slot whose tag is \<open>tg\<close>; no used slot has tag \<open>tg\<close>.\<close>

definition first_match :: "'m state \<Rightarrow> string \<Rightarrow> nat \<Rightarrow> bool" where
  "first_match s tg i =
     (i < nat (m_loadedTextures s) \<and> TEXTURE_INFO.tag (m_textureIDs s ! i) = tg \<and>
      (\<forall>j<i. TEXTURE_INFO.tag (m_textureIDs s ! j) \<noteq> tg))"

definition no_match :: "'m state \<Rightarrow> string \<Rightarrow> bool" where
  "no_match s tg = (\<forall>j<nat (m_loadedTextures s). TEXTURE_INFO.tag (m_textureIDs s ! j) \<noteq> tg)"

text \<open>
  A method replays: run on the same members after any history \<open>h\<close> of earlier calls, it
  issues the same calls and leaves every member as it was.
\<close>

definition replays :: "('m state \<Rightarrow> 'm state option) \<Rightarrow> 'm state \<Rightarrow> 'm call list \<Rightarrow> bool" where
  "replays f s cmds = (\<forall>h. f (s\<lparr>issued := h\<rparr>) = Some (s\<lparr>issued := h @ cmds\<rparr>))"

text \<open>The same for a method that cannot fail.\<close>

definition steps :: "('m state \<Rightarrow> 'm state) \<Rightarrow> 'm state \<Rightarrow> 'm call list \<Rightarrow> bool" where
  "steps A s cmds = (\<forall>h. A (s\<lparr>issued := h\<rparr>) = s\<lparr>issued := h @ cmds\<rparr>)"

section \<open>Example data\<close>

text \<open>GLM as the expressions it was asked to build, with a decoder that knows three kinds of file.\<close>

datatype matrix_term =
    Scale vec3 | Rotate real vec3 | Translate vec3 | Product matrix_term matrix_term

definition example_backend :: "matrix_term backend" where
  "example_backend =
     \<lparr> stbi_load = (\<lambda>filename.
         if filename = ''missing.jpg'' then None
         else if filename = ''gray.png'' then Some (8, 8, 1)
         else if filename = ''letterA.png'' then Some (64, 64, 4)
         else Some (64, 64, 3)),
       texture_name = (\<lambda>n. word_of_nat n + 1),
       glm_scale = Scale,
       glm_rotate = Rotate,
       glm_translate = Translate,
       glm_radians = (\<lambda>degrees. degrees * pi / 180),
       mat_mul = Product \<rparr>"

definition sixteen_textures :: "(string \<times> string) list" where
  "sixteen_textures =
     [ (''oakwood.jpg'', ''oakWood''), (''metal.jpg'', ''metalTexture''),
       (''stainless.jpg'', ''steelTexture''), (''lightblueplastic.jpg'', ''ltbluePlastic''),
       (''blueplastic.jpg'', ''bluePlastic''), (''magentaplastic.jpg'', ''magentaPlastic''),
       (''redplastic.jpg'', ''redPlastic''), (''orangeplastic.jpg'', ''orangePlastic''),
       (''greenplastic.jpg'', ''greenPlastic''), (''ashwood.jpg'', ''ashWood''),
       (''letterA.png'', ''letterA''), (''letterB.png'', ''letterB''),
       (''letterC.png'', ''letterC''), (''brick.jpg'', ''brick''),
       (''marble.jpg'', ''marble''), (''glass.jpg'', ''glass'') ]"

definition wood :: OBJECT_MATERIAL where
  "wood = \<lparr> ambientColor = (0.4, 0.3, 0.1), ambientStrength = 0.2,
            diffuseColor = (0.3, 0.2, 0.1), specularColor = (0.1, 0.1, 0.1),
            shininess = 0.3, tag = ''wood'' \<rparr>"

definition blank :: OBJECT_MATERIAL where
  "blank = \<lparr> ambientColor = (0, 0, 0), ambientStrength = 0,
             diffuseColor = (0, 0, 0), specularColor = (0, 0, 0),
             shininess = 0, tag = [] \<rparr>"

text \<open>The registry after \<^verbatim>\<open>CreateGLTexture("a.jpg", "A")\<close> and \<^verbatim>\<open>CreateGLTexture("b.jpg", "B")\<close>.\<close>

definition registered_A_B :: "matrix_term state" where
  "registered_A_B =
     (case CreateGLTextures GL_CLAMP_TO_EDGE example_backend
             [(''a.jpg'', ''A''), (''b.jpg'', ''B'')] (SceneManager (Ptr 1)) of
        Some (oks, s) \<Rightarrow> s
      | None \<Rightarrow> SceneManager (Ptr 1))"


section \<open>GLM in exact arithmetic\<close>

text \<open>
  Modelled from the spec: GLM (\<^verbatim>\<open>glm::scale\<close>, \<^verbatim>\<open>glm::rotate\<close>, \<^verbatim>\<open>glm::translate\<close>,
  \<^verbatim>\<open>glm::radians\<close> and the product of \<^verbatim>\<open>glm::mat4\<close>) is a library outside the sources. Its
  operations get the meaning the transform composer of the spec relies on: a 4x4
  object-to-world matrix acting on column vectors, built from an axis scaling, a rotation
  about an axis by an angle in radians and a translation, over the reals. Every matrix the
  scene manager builds has the bottom row (0, 0, 0, 1), so a matrix is kept as the three
  columns of its linear part and its translation column.
\<close>

record mat4 =
  col_x :: vec3
  col_y :: vec3
  col_z :: vec3
  col_w :: vec3

fun vadd :: "vec3 \<Rightarrow> vec3 \<Rightarrow> vec3" where
  "vadd (a, b, c) (x, y, z) = (a + x, b + y, c + z)"

fun vscale :: "real \<Rightarrow> vec3 \<Rightarrow> vec3" where
  "vscale k (x, y, z) = (k * x, k * y, k * z)"

fun dot :: "vec3 \<Rightarrow> vec3 \<Rightarrow> real" where
  "dot (a, b, c) (x, y, z) = a * x + b * y + c * z"

fun cross :: "vec3 \<Rightarrow> vec3 \<Rightarrow> vec3" where
  "cross (a, b, c) (x, y, z) = (b * z - c * y, c * x - a * z, a * y - b * x)"

definition normalize :: "vec3 \<Rightarrow> vec3" where
  "normalize v = vscale (1 / sqrt (dot v v)) v"

text \<open>The matrix applied to a direction, and to a point (fourth coordinate 1).\<close>

fun linear_part :: "mat4 \<Rightarrow> vec3 \<Rightarrow> vec3" where
  "linear_part M (x, y, z) =
     vadd (vadd (vscale x (col_x M)) (vscale y (col_y M))) (vscale z (col_z M))"

definition transform :: "mat4 \<Rightarrow> vec3 \<Rightarrow> vec3" where
  "transform M v = vadd (linear_part M v) (col_w M)"

definition mat4_mul :: "mat4 \<Rightarrow> mat4 \<Rightarrow> mat4" where
  "mat4_mul A B =
     \<lparr> col_x = linear_part A (col_x B), col_y = linear_part A (col_y B),
       col_z = linear_part A (col_z B), col_w = transform A (col_w B) \<rparr>"

text \<open>Rotation of a vector by \<open>angle\<close> about the normalised \<open>axis\<close>.\<close>

definition rotate_vec :: "real \<Rightarrow> vec3 \<Rightarrow> vec3 \<Rightarrow> vec3" where
  "rotate_vec angle axis v =
     vadd (vadd (vscale (cos angle) v) (vscale (sin angle) (cross (normalize axis) v)))
          (vscale (dot (normalize axis) v * (1 - cos angle)) (normalize axis))"

definition glm_exact :: "mat4 backend" where
  "glm_exact =
     \<lparr> stbi_load = stbi_load example_backend,
       texture_name = texture_name example_backend,
       glm_scale = (\<lambda>(x, y, z).
         \<lparr> col_x = (x, 0, 0), col_y = (0, y, 0), col_z = (0, 0, z), col_w = (0, 0, 0) \<rparr>),
       glm_rotate = (\<lambda>angle axis.
         \<lparr> col_x = rotate_vec angle axis (1, 0, 0), col_y = rotate_vec angle axis (0, 1, 0),
           col_z = rotate_vec angle axis (0, 0, 1), col_w = (0, 0, 0) \<rparr>),
       glm_translate = (\<lambda>t.
         \<lparr> col_x = (1, 0, 0), col_y = (0, 1, 0), col_z = (0, 0, 1), col_w = t \<rparr>),
       glm_radians = (\<lambda>degrees. degrees * pi / 180),
       mat_mul = mat4_mul \<rparr>"

text \<open>
  The action the claim's words describe: scale first, then the rotations about X, about Y
  and about Z in that order, then the translation. \<open>act\<close> applies a matrix to a vertex.
\<close>

definition scale_X_Y_Z_translate ::
  "'m backend \<Rightarrow> ('m \<Rightarrow> vec3 \<Rightarrow> vec3) \<Rightarrow> vec3 \<Rightarrow> real \<Rightarrow> real \<Rightarrow> real \<Rightarrow> vec3 \<Rightarrow> vec3 \<Rightarrow> vec3" where
  "scale_X_Y_Z_translate E act scaleXYZ XrotationDegrees YrotationDegrees ZrotationDegrees positionXYZ v =
     act (glm_translate E positionXYZ)
       (act (glm_rotate E (glm_radians E ZrotationDegrees) (0, 0, 1))
          (act (glm_rotate E (glm_radians E YrotationDegrees) (0, 1, 0))
             (act (glm_rotate E (glm_radians E XrotationDegrees) (1, 0, 0))
                (act (glm_scale E scaleXYZ) v))))"

section \<open>Basic facts about the state\<close>

declare FindTextureSlot_loop.simps [simp del] FindTextureID_loop.simps [simp del]
  DestroyGLTextures_loop.simps [simp del] FindMaterial_loop.simps [simp del]

lemma emit_fields [simp]:
  "m_pShaderManager (emit c s) = m_pShaderManager s"
  "m_textureIDs (emit c s) = m_textureIDs s"
  "m_loadedTextures (emit c s) = m_loadedTextures s"
  "m_objectMaterials (emit c s) = m_objectMaterials s"
  "generated (emit c s) = generated s"
  "issued (emit c s) = issued s @ [c]"
  by (simp_all add: emit_def)

lemma in_bounds_emit [simp]: "in_bounds (emit c s) i = in_bounds s i"
  by (simp add: in_bounds_def)

lemma texture_at_emit [simp]: "texture_at (emit c s) i = texture_at s i"
  by (simp add: texture_at_def)

lemma gen_texture_fields [simp]:
  "fst (gen_texture E s) = texture_name E (generated s)"
  "m_pShaderManager (snd (gen_texture E s)) = m_pShaderManager s"
  "m_textureIDs (snd (gen_texture E s)) = m_textureIDs s"
  "m_loadedTextures (snd (gen_texture E s)) = m_loadedTextures s"
  "m_objectMaterials (snd (gen_texture E s)) = m_objectMaterials s"
  "generated (snd (gen_texture E s)) = generated s + 1"
  "issued (snd (gen_texture E s)) = issued s @ [glGenTextures 1]"
  by (simp_all add: gen_texture_def)

lemma in_bounds_gen_texture [simp]: "in_bounds (snd (gen_texture E s)) i = in_bounds s i"
  by (simp add: in_bounds_def)

section \<open>Registration\<close>

lemma register_texture_Some:
  "register_texture h tg s = Some (ok, s') \<Longrightarrow>
     ok \<and> in_bounds s (m_loadedTextures s) \<and>
     m_loadedTextures s' = m_loadedTextures s + 1 \<and>
     m_textureIDs s' =
       (m_textureIDs s)[nat (m_loadedTextures s) := \<lparr> TEXTURE_INFO.tag = tg, ID = h \<rparr>]"
  by (auto simp: register_texture_def Let_def split: if_splits)

lemma register_texture_in_bounds:
  "in_bounds s (m_loadedTextures s) \<Longrightarrow> \<exists>s'. register_texture h tg s = Some (True, s')"
  by (simp add: register_texture_def Let_def)

lemma register_texture_out_of_bounds:
  "\<not> in_bounds s (m_loadedTextures s) \<Longrightarrow> register_texture h tg s = None"
  by (simp add: register_texture_def Let_def)

lemma CreateGLTexture_undecodable:
  assumes "stbi_load E filename = None"
  shows "CreateGLTexture wrap E filename tg s =
           Some (False, emit (cout (Could_not_load_image filename))
                          (emit (stbi_set_flip_vertically_on_load True) s))"
  using assms by (simp add: CreateGLTexture_def Let_def)

lemma CreateGLTexture_unsupported:
  assumes "stbi_load E filename = Some (width, height, colorChannels)"
    and "colorChannels \<noteq> 3" "colorChannels \<noteq> 4"
  shows "\<exists>s'. CreateGLTexture wrap E filename tg s = Some (False, s') \<and>
           m_textureIDs s' = m_textureIDs s \<and> m_loadedTextures s' = m_loadedTextures s \<and>
           m_objectMaterials s' = m_objectMaterials s \<and> m_pShaderManager s' = m_pShaderManager s"
  using assms by (simp add: CreateGLTexture_def Let_def split_beta)

lemma CreateGLTexture_supported:
  assumes "stbi_load E filename = Some (width, height, colorChannels)"
    and "colorChannels = 3 \<or> colorChannels = 4"
  shows "\<exists>s0. CreateGLTexture wrap E filename tg s =
                register_texture (texture_name E (generated s)) tg s0 \<and>
           m_textureIDs s0 = m_textureIDs s \<and> m_loadedTextures s0 = m_loadedTextures s"
proof (cases "colorChannels = 3")
  case True
  with assms(1) show ?thesis
    by (simp add: CreateGLTexture_def Let_def split_beta) (rule exI, rule conjI, rule refl, simp)
next
  case False
  with assms have "colorChannels = 4" by simp
  with assms(1) show ?thesis
    by (simp add: CreateGLTexture_def Let_def split_beta) (rule exI, rule conjI, rule refl, simp)
qed

lemma CreateGLTexture_success:
  assumes "CreateGLTexture wrap E filename tg s = Some (True, s')"
  shows "in_bounds s (m_loadedTextures s) \<and>
     m_loadedTextures s' = m_loadedTextures s + 1 \<and>
     m_textureIDs s' =
       (m_textureIDs s)[nat (m_loadedTextures s) :=
          \<lparr> TEXTURE_INFO.tag = tg, ID = texture_name E (generated s) \<rparr>]"
proof (cases "stbi_load E filename")
  case None
  from CreateGLTexture_undecodable[OF this] assms show ?thesis by simp
next
  case (Some img)
  obtain w h c where img: "stbi_load E filename = Some (w, h, c)"
    using Some by (cases img) auto
  show ?thesis
  proof (cases "c = 3 \<or> c = 4")
    case True
    from CreateGLTexture_supported[OF img True] obtain s0 where
      s0: "CreateGLTexture wrap E filename tg s = register_texture (texture_name E (generated s)) tg s0"
        "m_textureIDs s0 = m_textureIDs s" "m_loadedTextures s0 = m_loadedTextures s"
      by blast
    from s0(1) assms have "register_texture (texture_name E (generated s)) tg s0 = Some (True, s')"
      by simp
    from register_texture_Some[OF this] s0(2,3) show ?thesis
      by (simp add: in_bounds_def)
  next
    case False
    then have "c \<noteq> 3" "c \<noteq> 4" by auto
    from CreateGLTexture_unsupported[OF img this, of wrap tg s] assms show ?thesis by auto
  qed
qed

lemma CreateGLTexture_failure:
  assumes "CreateGLTexture wrap E filename tg s = Some (False, s')"
  shows "m_textureIDs s' = m_textureIDs s \<and> m_loadedTextures s' = m_loadedTextures s \<and>
         m_objectMaterials s' = m_objectMaterials s \<and> m_pShaderManager s' = m_pShaderManager s"
proof (cases "stbi_load E filename")
  case None
  from CreateGLTexture_undecodable[OF this] assms show ?thesis by auto
next
  case (Some img)
  obtain w h c where img: "stbi_load E filename = Some (w, h, c)"
    using Some by (cases img) auto
  show ?thesis
  proof (cases "c = 3 \<or> c = 4")
    case True
    from CreateGLTexture_supported[OF img True] obtain s0 where
      s0: "CreateGLTexture wrap E filename tg s = register_texture (texture_name E (generated s)) tg s0"
      by blast
    from s0(1) assms have "register_texture (texture_name E (generated s)) tg s0 = Some (False, s')"
      by simp
    from register_texture_Some[OF this] show ?thesis by simp
  next
    case False
    then have "c \<noteq> 3" "c \<noteq> 4" by auto
    from CreateGLTexture_unsupported[OF img this, of wrap tg s] assms show ?thesis by auto
  qed
qed

lemma CreateGLTexture_returns_True:
  assumes "stbi_load E filename = Some (width, height, colorChannels)"
    and "colorChannels = 3 \<or> colorChannels = 4"
    and "in_bounds s (m_loadedTextures s)"
  shows "\<exists>s'. CreateGLTexture wrap E filename tg s = Some (True, s')"
proof -
  from CreateGLTexture_supported[OF assms(1,2)] obtain s0 where
    s0: "CreateGLTexture wrap E filename tg s = register_texture (texture_name E (generated s)) tg s0"
      "m_textureIDs s0 = m_textureIDs s" "m_loadedTextures s0 = m_loadedTextures s"
    by blast
  have "in_bounds s0 (m_loadedTextures s0)"
    using assms(3) s0(2,3) by (simp add: in_bounds_def)
  from register_texture_in_bounds[OF this] s0(1) show ?thesis by simp
qed

lemma CreateGLTexture_full:
  assumes "stbi_load E filename = Some (width, height, colorChannels)"
    and "colorChannels = 3 \<or> colorChannels = 4"
    and "\<not> in_bounds s (m_loadedTextures s)"
  shows "CreateGLTexture wrap E filename tg s = None"
proof -
  from CreateGLTexture_supported[OF assms(1,2)] obtain s0 where
    s0: "CreateGLTexture wrap E filename tg s = register_texture (texture_name E (generated s)) tg s0"
      "m_textureIDs s0 = m_textureIDs s" "m_loadedTextures s0 = m_loadedTextures s"
    by blast
  have "\<not> in_bounds s0 (m_loadedTextures s0)"
    using assms(3) s0(2,3) by (simp add: in_bounds_def)
  from register_texture_out_of_bounds[OF this] s0(1) show ?thesis by simp
qed

lemma CreateGLTexture_returns_False_iff:
  "(\<exists>s'. CreateGLTexture wrap E filename tg s = Some (False, s')) \<longleftrightarrow>
     (stbi_load E filename = None \<or>
      (\<exists>width height colorChannels. stbi_load E filename = Some (width, height, colorChannels) \<and>
         colorChannels \<noteq> 3 \<and> colorChannels \<noteq> 4))"
proof (cases "stbi_load E filename")
  case None
  from CreateGLTexture_undecodable[OF this] None show ?thesis by simp
next
  case (Some img)
  obtain w h c where img: "stbi_load E filename = Some (w, h, c)"
    using Some by (cases img) auto
  show ?thesis
  proof (cases "c = 3 \<or> c = 4")
    case True
    from CreateGLTexture_supported[OF img True] obtain s0 where
      s0: "CreateGLTexture wrap E filename tg s = register_texture (texture_name E (generated s)) tg s0"
      by blast
    have "\<not> (\<exists>s'. CreateGLTexture wrap E filename tg s = Some (False, s'))"
      using register_texture_Some[of "texture_name E (generated s)" tg s0 False] s0 by auto
    then show ?thesis using img True by auto
  next
    case False
    then have "c \<noteq> 3" "c \<noteq> 4" by auto
    from CreateGLTexture_unsupported[OF img this, of wrap tg s] img this show ?thesis by blast
  qed
qed

lemma registered_tags_store:
  assumes "registry_ok s" "in_bounds s (m_loadedTextures s)"
    and "m_loadedTextures s' = m_loadedTextures s + 1"
    and "m_textureIDs s' = (m_textureIDs s)[nat (m_loadedTextures s) := \<lparr> TEXTURE_INFO.tag = tg, ID = h \<rparr>]"
  shows "registry_ok s' \<and> registered_tags s' = registered_tags s @ [tg]"
proof -
  let ?n = "nat (m_loadedTextures s)"
  have n: "?n < length (m_textureIDs s)" "0 \<le> m_loadedTextures s"
    using assms(1,2) by (auto simp: in_bounds_def registry_ok_def)
  have "nat (m_loadedTextures s') = Suc ?n" using assms(3) n by simp
  then have "registered_tags s' = map TEXTURE_INFO.tag (take (Suc ?n) ((m_textureIDs s)[?n := \<lparr> TEXTURE_INFO.tag = tg, ID = h \<rparr>]))"
    by (simp add: registered_tags_def assms(4))
  also have "\<dots> = registered_tags s @ [tg]"
    using n by (simp add: take_Suc_conv_app_nth registered_tags_def)
  finally show ?thesis using assms n by (auto simp: registry_ok_def in_bounds_def)
qed

lemma CreateGLTextures_tags:
  assumes "registry_ok s" "CreateGLTextures wrap E regs s = Some (oks, s')"
  shows "registry_ok s' \<and> registered_tags s' = registered_tags s @ successful regs oks"
  using assms
proof (induction regs arbitrary: s oks)
  case Nil
  then show ?case by simp
next
  case (Cons r regs)
  obtain filename tg where r: "r = (filename, tg)" by (cases r)
  from Cons.prems(2) r obtain ok s1 oks1 where
    one: "CreateGLTexture wrap E filename tg s = Some (ok, s1)" and
    rest: "CreateGLTextures wrap E regs s1 = Some (oks1, s')" and oks: "oks = ok # oks1"
    by (auto split: option.splits)
  show ?case
  proof (cases ok)
    case True
    with one have c: "CreateGLTexture wrap E filename tg s = Some (True, s1)" by simp
    have "registry_ok s1 \<and> registered_tags s1 = registered_tags s @ [tg]"
      using registered_tags_store[OF Cons.prems(1), of s1 tg "texture_name E (generated s)"]
        CreateGLTexture_success[OF c] by simp
    with Cons.IH[OF _ rest] show ?thesis by (simp add: r oks True)
  next
    case False
    with one have c: "CreateGLTexture wrap E filename tg s = Some (False, s1)" by simp
    have "registry_ok s1 \<and> registered_tags s1 = registered_tags s"
      using CreateGLTexture_failure[OF c] Cons.prems(1)
      by (simp add: registry_ok_def registered_tags_def)
    with Cons.IH[OF _ rest] show ?thesis by (simp add: r oks False)
  qed
qed

text \<open>Registrations of decodable RGB or RGBA files that fit the array all return \<^verbatim>\<open>true\<close>.\<close>

lemma CreateGLTextures_fit:
  assumes "0 \<le> m_loadedTextures s"
    and "m_loadedTextures s + int (length regs) \<le> int (length (m_textureIDs s))"
    and "\<forall>r \<in> set regs. \<exists>w h c. stbi_load E (fst r) = Some (w, h, c) \<and> (c = 3 \<or> c = 4)"
  shows "\<exists>s'. CreateGLTextures wrap E regs s = Some (replicate (length regs) True, s') \<and>
           m_loadedTextures s' = m_loadedTextures s + int (length regs) \<and>
           length (m_textureIDs s') = length (m_textureIDs s)"
  using assms
proof (induction regs arbitrary: s)
  case Nil
  then show ?case by simp
next
  case (Cons r regs)
  obtain filename tg where r: "r = (filename, tg)" by (cases r)
  from Cons.prems(3) r obtain w h c where
    img: "stbi_load E filename = Some (w, h, c)" "c = 3 \<or> c = 4" by auto
  have ib: "in_bounds s (m_loadedTextures s)"
    using Cons.prems(1,2) by (simp add: in_bounds_def)
  from CreateGLTexture_returns_True[OF img ib] obtain s1 where
    one: "CreateGLTexture wrap E filename tg s = Some (True, s1)" by blast
  note S = CreateGLTexture_success[OF one]
  have "\<exists>s'. CreateGLTextures wrap E regs s1 = Some (replicate (length regs) True, s') \<and>
           m_loadedTextures s' = m_loadedTextures s1 + int (length regs) \<and>
           length (m_textureIDs s') = length (m_textureIDs s1)"
    using Cons.prems S by (intro Cons.IH) auto
  then show ?case using one S by (auto simp: r)
qed

section \<open>Lookup\<close>

lemma FindTextureSlot_loop_miss:
  assumes "0 \<le> k" "m_loadedTextures s \<le> int (length (m_textureIDs s))"
    and "\<forall>j. k \<le> j \<and> j < m_loadedTextures s \<longrightarrow> TEXTURE_INFO.tag (m_textureIDs s ! nat j) \<noteq> tg"
  shows "FindTextureSlot_loop s tg r k False = Some r"
  using assms
proof (induction "nat (m_loadedTextures s - k)" arbitrary: k)
  case 0
  then show ?case by (subst FindTextureSlot_loop.simps) simp
next
  case (Suc n)
  then have lt: "k < m_loadedTextures s" by linarith
  have "FindTextureSlot_loop s tg r (k + 1) False = Some r"
    using Suc by (intro Suc.hyps(1)) auto
  then show ?case
    using lt Suc.prems
    by (subst FindTextureSlot_loop.simps) (simp add: texture_at_def in_bounds_def)
qed

lemma FindTextureSlot_loop_hit:
  assumes "0 \<le> k" "k \<le> i" "i < m_loadedTextures s"
    and "m_loadedTextures s \<le> int (length (m_textureIDs s))"
    and "\<forall>j. k \<le> j \<and> j < i \<longrightarrow> TEXTURE_INFO.tag (m_textureIDs s ! nat j) \<noteq> tg"
    and "TEXTURE_INFO.tag (m_textureIDs s ! nat i) = tg"
  shows "FindTextureSlot_loop s tg r k False = Some i"
  using assms
proof (induction "nat (i - k)" arbitrary: k)
  case 0
  then have "k = i" by simp
  moreover have "FindTextureSlot_loop s tg i i True = Some i"
    by (subst FindTextureSlot_loop.simps) simp
  ultimately show ?case
    using 0 by (subst FindTextureSlot_loop.simps) (simp add: texture_at_def in_bounds_def)
next
  case (Suc n)
  then have lt: "k < i" by linarith
  have "FindTextureSlot_loop s tg r (k + 1) False = Some i"
    using Suc by (intro Suc.hyps(1)) auto
  then show ?case
    using lt Suc.prems
    by (subst FindTextureSlot_loop.simps) (simp add: texture_at_def in_bounds_def)
qed

lemma FindTextureID_loop_miss:
  assumes "0 \<le> k" "m_loadedTextures s \<le> int (length (m_textureIDs s))"
    and "\<forall>j. k \<le> j \<and> j < m_loadedTextures s \<longrightarrow> TEXTURE_INFO.tag (m_textureIDs s ! nat j) \<noteq> tg"
  shows "FindTextureID_loop s tg r k False = Some r"
  using assms
proof (induction "nat (m_loadedTextures s - k)" arbitrary: k)
  case 0
  then show ?case by (subst FindTextureID_loop.simps) simp
next
  case (Suc n)
  then have lt: "k < m_loadedTextures s" by linarith
  have "FindTextureID_loop s tg r (k + 1) False = Some r"
    using Suc by (intro Suc.hyps(1)) auto
  then show ?case
    using lt Suc.prems
    by (subst FindTextureID_loop.simps) (simp add: texture_at_def in_bounds_def)
qed

lemma FindTextureID_loop_hit:
  assumes "0 \<le> k" "k \<le> i" "i < m_loadedTextures s"
    and "m_loadedTextures s \<le> int (length (m_textureIDs s))"
    and "\<forall>j. k \<le> j \<and> j < i \<longrightarrow> TEXTURE_INFO.tag (m_textureIDs s ! nat j) \<noteq> tg"
    and "TEXTURE_INFO.tag (m_textureIDs s ! nat i) = tg"
  shows "FindTextureID_loop s tg r k False = Some (sint (ID (m_textureIDs s ! nat i)))"
  using assms
proof (induction "nat (i - k)" arbitrary: k)
  case 0
  then have "k = i" by simp
  moreover have "FindTextureID_loop s tg x i True = Some x" for x
    by (subst FindTextureID_loop.simps) simp
  ultimately show ?case
    using 0 by (subst FindTextureID_loop.simps) (simp add: texture_at_def in_bounds_def)
next
  case (Suc n)
  then have lt: "k < i" by linarith
  have "FindTextureID_loop s tg r (k + 1) False = Some (sint (ID (m_textureIDs s ! nat i)))"
    using Suc by (intro Suc.hyps(1)) auto
  then show ?case
    using lt Suc.prems
    by (subst FindTextureID_loop.simps) (simp add: texture_at_def in_bounds_def)
qed

lemma first_match_int:
  assumes "registry_ok s" "first_match s tg i"
  shows "int i < m_loadedTextures s"
    and "m_loadedTextures s \<le> int (length (m_textureIDs s))"
    and "\<forall>j. 0 \<le> j \<and> j < int i \<longrightarrow> TEXTURE_INFO.tag (m_textureIDs s ! nat j) \<noteq> tg"
    and "TEXTURE_INFO.tag (m_textureIDs s ! nat (int i)) = tg"
proof -
  show "int i < m_loadedTextures s" using assms(2) unfolding first_match_def by linarith
  show "m_loadedTextures s \<le> int (length (m_textureIDs s))"
    using assms(1) by (simp add: registry_ok_def)
  show "\<forall>j. 0 \<le> j \<and> j < int i \<longrightarrow> TEXTURE_INFO.tag (m_textureIDs s ! nat j) \<noteq> tg"
  proof (intro allI impI)
    fix j :: int assume "0 \<le> j \<and> j < int i"
    then have "nat j < i" by linarith
    then show "TEXTURE_INFO.tag (m_textureIDs s ! nat j) \<noteq> tg"
      using assms(2) by (simp add: first_match_def)
  qed
  show "TEXTURE_INFO.tag (m_textureIDs s ! nat (int i)) = tg"
    using assms(2) by (simp add: first_match_def)
qed

lemma no_match_int:
  assumes "registry_ok s" "no_match s tg"
  shows "\<forall>j. 0 \<le> j \<and> j < m_loadedTextures s \<longrightarrow> TEXTURE_INFO.tag (m_textureIDs s ! nat j) \<noteq> tg"
proof (intro allI impI)
  fix j :: int assume "0 \<le> j \<and> j < m_loadedTextures s"
  then have "nat j < nat (m_loadedTextures s)" by linarith
  then show "TEXTURE_INFO.tag (m_textureIDs s ! nat j) \<noteq> tg"
    using assms(2) by (simp add: no_match_def)
qed

lemma FindTextureSlot_first_match:
  assumes "registry_ok s" "first_match s tg i"
  shows "FindTextureSlot s tg = Some (int i)"
  unfolding FindTextureSlot_def
  using first_match_int[OF assms]
  by (intro FindTextureSlot_loop_hit) simp_all

lemma FindTextureSlot_no_match:
  assumes "registry_ok s" "no_match s tg"
  shows "FindTextureSlot s tg = Some (- 1)"
  unfolding FindTextureSlot_def
  using no_match_int[OF assms] assms(1)
  by (intro FindTextureSlot_loop_miss) (simp_all add: registry_ok_def)

lemma FindTextureID_first_match:
  assumes "registry_ok s" "first_match s tg i"
  shows "FindTextureID s tg = Some (sint (ID (m_textureIDs s ! i)))"
proof -
  have "FindTextureID_loop s tg (- 1) 0 False = Some (sint (ID (m_textureIDs s ! nat (int i))))"
    using first_match_int[OF assms]
    by (intro FindTextureID_loop_hit) simp_all
  then show ?thesis by (simp add: FindTextureID_def)
qed

lemma FindTextureID_no_match:
  assumes "registry_ok s" "no_match s tg"
  shows "FindTextureID s tg = Some (- 1)"
  unfolding FindTextureID_def
  using no_match_int[OF assms] assms(1)
  by (intro FindTextureID_loop_miss) (simp_all add: registry_ok_def)

lemma first_match_or_no_match:
  "no_match s tg \<or> (\<exists>i. first_match s tg i)"
proof (cases "no_match s tg")
  case True
  then show ?thesis by simp
next
  case False
  define P where "P j \<longleftrightarrow> j < nat (m_loadedTextures s) \<and> TEXTURE_INFO.tag (m_textureIDs s ! j) = tg" for j
  from False obtain j where "P j" by (auto simp: no_match_def P_def)
  then have 1: "P (LEAST j. P j)" by (rule LeastI)
  have 2: "\<not> P k" if "k < (LEAST j. P j)" for k
    using that by (rule not_less_Least)
  have "first_match s tg (LEAST j. P j)"
    unfolding first_match_def
  proof (intro conjI allI impI)
    show "(LEAST j. P j) < nat (m_loadedTextures s)" using 1 by (simp add: P_def)
    show "TEXTURE_INFO.tag (m_textureIDs s ! (LEAST j. P j)) = tg" using 1 by (simp add: P_def)
    fix k assume k: "k < (LEAST j. P j)"
    then have "\<not> P k" by (rule 2)
    moreover have "k < nat (m_loadedTextures s)" using k 1 by (simp add: P_def)
    ultimately show "TEXTURE_INFO.tag (m_textureIDs s ! k) \<noteq> tg" by (simp add: P_def)
  qed
  then show ?thesis by blast
qed

lemma first_match_distinct:
  assumes "registry_ok s" "distinct (registered_tags s)" "i < length (registered_tags s)"
  shows "first_match s (registered_tags s ! i) i"
proof -
  have le: "nat (m_loadedTextures s) \<le> length (m_textureIDs s)"
    using assms(1) unfolding registry_ok_def by linarith
  then have len: "length (registered_tags s) = nat (m_loadedTextures s)"
    by (simp add: registered_tags_def)
  have nth: "registered_tags s ! j = TEXTURE_INFO.tag (m_textureIDs s ! j)"
    if "j < nat (m_loadedTextures s)" for j
    using that le by (simp add: registered_tags_def)
  have ne: "TEXTURE_INFO.tag (m_textureIDs s ! j) \<noteq> registered_tags s ! i" if "j < i" for j
  proof -
    have "registered_tags s ! j \<noteq> registered_tags s ! i"
      using that assms(2,3) by (simp add: nth_eq_iff_index_eq)
    moreover have "j < nat (m_loadedTextures s)" using that assms(3) len by simp
    ultimately show ?thesis using nth[of j] by simp
  qed
  have "i < nat (m_loadedTextures s)" using assms(3) len by simp
  moreover from this have "TEXTURE_INFO.tag (m_textureIDs s ! i) = registered_tags s ! i"
    using nth[of i] by simp
  ultimately show ?thesis using ne by (simp add: first_match_def)
qed

lemma registered_A_B_run:
  "CreateGLTextures GL_CLAMP_TO_EDGE example_backend
     [(''a.jpg'', ''A''), (''b.jpg'', ''B'')] (SceneManager (Ptr 1)) = Some ([True, True], registered_A_B)"
  by (simp add: registered_A_B_def SceneManager_def CreateGLTexture_def register_texture_def
      example_backend_def Let_def gen_texture_def in_bounds_def emit_def)

lemma registered_A_B_fields:
  "m_loadedTextures registered_A_B = 2"
  "m_textureIDs registered_A_B =
     \<lparr> TEXTURE_INFO.tag = ''A'', ID = 1 \<rparr> # \<lparr> TEXTURE_INFO.tag = ''B'', ID = 2 \<rparr> #
     replicate 14 \<lparr> TEXTURE_INFO.tag = ''/0'', ID = - 1 \<rparr>"
  "m_pShaderManager registered_A_B = Ptr 1"
  by (simp_all add: registered_A_B_def SceneManager_def CreateGLTexture_def register_texture_def
      example_backend_def Let_def gen_texture_def in_bounds_def emit_def eval_nat_numeral)

lemma registered_A_B_ok: "registry_ok registered_A_B"
  by (simp add: registry_ok_def registered_A_B_fields)

lemma registered_A_B_matches:
  "first_match registered_A_B ''A'' 0"
  "first_match registered_A_B ''B'' 1"
  "no_match registered_A_B ''C''"
  by (simp_all add: first_match_def no_match_def registered_A_B_fields less_Suc_eq numeral_2_eq_2)

text \<open>
  C9. In a registry within its array, \<^verbatim>\<open>FindTextureSlot\<close> and \<^verbatim>\<open>FindTextureID\<close> return the
  slot and the handle of the first used entry whose tag equals the query, and both return
  \<open>-1\<close> when no used entry has that tag.
\<close>

theorem texture_lookup_first_match:
  assumes "registry_ok s"
  shows "(first_match s tg i \<longrightarrow>
            FindTextureSlot s tg = Some (int i) \<and>
            FindTextureID s tg = Some (sint (ID (m_textureIDs s ! i))))
       \<and> (no_match s tg \<longrightarrow>
            FindTextureSlot s tg = Some (- 1) \<and> FindTextureID s tg = Some (- 1))"
  using assms FindTextureSlot_first_match FindTextureID_first_match
    FindTextureSlot_no_match FindTextureID_no_match
  by blast

theorem texture_lookup_first_match_witness:
  "registry_ok registered_A_B \<and> first_match registered_A_B ''B'' 1 \<and> no_match registered_A_B ''C'' \<and>
   FindTextureSlot registered_A_B ''B'' = Some 1 \<and> FindTextureID registered_A_B ''B'' = Some 2 \<and>
   FindTextureSlot registered_A_B ''C'' = Some (- 1) \<and> FindTextureID registered_A_B ''C'' = Some (- 1)"
  using texture_lookup_first_match[OF registered_A_B_ok, of "''B''" 1]
    texture_lookup_first_match[OF registered_A_B_ok, of "''C''" 0]
    registered_A_B_ok registered_A_B_matches
  by (simp add: registered_A_B_fields)

text \<open>
  C1. Starting from an empty registry, after any run of registrations whose successful tags
  are pairwise distinct, looking up the tag of the \<open>i\<close>-th successful registration returns
  slot \<open>i\<close>, and slot \<open>i\<close> holds that tag. In particular, after registering "A" and then
  "B", "A" is still found in slot 0.
\<close>

theorem lookup_returns_registration_slot:
  assumes "m_loadedTextures s = 0"
    and "CreateGLTextures wrap E regs s = Some (oks, s')"
    and "distinct (successful regs oks)"
    and "i < length (successful regs oks)"
  shows "FindTextureSlot s' (successful regs oks ! i) = Some (int i) \<and>
         TEXTURE_INFO.tag (m_textureIDs s' ! i) = successful regs oks ! i"
proof -
  have ok: "registry_ok s" and empty: "registered_tags s = []"
    using assms(1) by (simp_all add: registry_ok_def registered_tags_def)
  from CreateGLTextures_tags[OF ok assms(2)] empty
  have ok': "registry_ok s'" and tags: "registered_tags s' = successful regs oks" by simp_all
  have "first_match s' (registered_tags s' ! i) i"
    using ok' assms(3,4) tags by (intro first_match_distinct) simp_all
  then have fm: "first_match s' (successful regs oks ! i) i" by (simp add: tags)
  from FindTextureSlot_first_match[OF ok' fm] fm show ?thesis
    by (simp add: first_match_def)
qed

theorem lookup_returns_registration_slot_witness:
  "m_loadedTextures (SceneManager (Ptr 1) :: matrix_term state) = 0 \<and>
   CreateGLTextures GL_CLAMP_TO_EDGE example_backend [(''a.jpg'', ''A''), (''b.jpg'', ''B'')]
     (SceneManager (Ptr 1)) = Some ([True, True], registered_A_B) \<and>
   successful [(''a.jpg'', ''A''), (''b.jpg'', ''B'')] [True, True] = [''A'', ''B''] \<and>
   FindTextureSlot registered_A_B ''A'' = Some 0 \<and>
   FindTextureSlot registered_A_B ''B'' = Some 1"
proof -
  have e: "m_loadedTextures (SceneManager (Ptr 1) :: matrix_term state) = 0"
    by (simp add: SceneManager_def)
  have t: "successful [(''a.jpg'', ''A''), (''b.jpg'', ''B'')] [True, True] = [''A'', ''B'']"
    by simp
  have d: "distinct (successful [(''a.jpg'', ''A''), (''b.jpg'', ''B'')] [True, True])"
    by simp
  show ?thesis
    using lookup_returns_registration_slot[OF e registered_A_B_run d, of 0]
      lookup_returns_registration_slot[OF e registered_A_B_run d, of 1]
      e registered_A_B_run t
    by simp
qed

text \<open>
  C2. After sixteen successful registrations on a fresh scene manager the count is 16, and a
  seventeenth registration of a decodable RGB file does not return \<^verbatim>\<open>false\<close>: it stores to
  \<^verbatim>\<open>m_textureIDs[16]\<close>, outside the array (\<open>None\<close>).
\<close>

theorem seventeenth_registration_out_of_bounds:
  "\<exists>s. CreateGLTextures GL_CLAMP_TO_EDGE example_backend sixteen_textures
          (SceneManager (Ptr 1)) = Some (replicate 16 True, s) \<and>
       m_loadedTextures s = 16 \<and> length (m_textureIDs s) = 16 \<and>
       stbi_load example_backend ''ceramic.jpg'' = Some (64, 64, 3) \<and>
       CreateGLTexture GL_CLAMP_TO_EDGE example_backend ''ceramic.jpg'' ''ceramic'' s = None"
proof -
  let ?s0 = "SceneManager (Ptr 1) :: matrix_term state"
  have fields: "m_loadedTextures ?s0 = 0" "length (m_textureIDs ?s0) = 16"
    by (simp_all add: SceneManager_def)
  have len: "length sixteen_textures = 16" by (simp add: sixteen_textures_def)
  have dec: "\<forall>r \<in> set sixteen_textures.
      \<exists>w h c. stbi_load example_backend (fst r) = Some (w, h, c) \<and> (c = 3 \<or> c = 4)"
    by (simp add: sixteen_textures_def example_backend_def)
  have "\<exists>s'. CreateGLTextures GL_CLAMP_TO_EDGE example_backend sixteen_textures ?s0 =
            Some (replicate (length sixteen_textures) True, s') \<and>
          m_loadedTextures s' = m_loadedTextures ?s0 + int (length sixteen_textures) \<and>
          length (m_textureIDs s') = length (m_textureIDs ?s0)"
    using fields len dec by (intro CreateGLTextures_fit) simp_all
  then obtain s where s:
    "CreateGLTextures GL_CLAMP_TO_EDGE example_backend sixteen_textures ?s0 = Some (replicate 16 True, s)"
    "m_loadedTextures s = 16" "length (m_textureIDs s) = 16"
    using fields len by auto
  have img: "stbi_load example_backend ''ceramic.jpg'' = Some (64, 64, 3)"
    by (simp add: example_backend_def)
  have "\<not> in_bounds s (m_loadedTextures s)" using s(2,3) by (simp add: in_bounds_def)
  from CreateGLTexture_full[OF img _ this] have
    "CreateGLTexture GL_CLAMP_TO_EDGE example_backend ''ceramic.jpg'' ''ceramic'' s = None"
    by simp
  with s img show ?thesis by blast
qed

text \<open>
  C3. With one material tagged "wood" registered, \<^verbatim>\<open>FindMaterial("metal", material)\<close>
  returns \<^verbatim>\<open>true\<close> and leaves \<open>material\<close> as it was, although no entry has the tag.
\<close>

theorem FindMaterial_reports_found_without_match:
  "FindMaterial ((SceneManager (Ptr 1) :: matrix_term state)\<lparr>m_objectMaterials := [wood]\<rparr>)
     ''metal'' blank = (True, blank) \<and>
   OBJECT_MATERIAL.tag wood \<noteq> ''metal''"
  by (simp add: FindMaterial_def SceneManager_def wood_def FindMaterial_loop.simps)

text \<open>
  C6. \<^verbatim>\<open>CreateGLTexture\<close> returns \<^verbatim>\<open>false\<close> exactly when the file cannot be decoded or its
  channel count is neither 3 nor 4, and returns \<^verbatim>\<open>true\<close> for every decodable file with 3 or 4
  channels when a slot is free.
\<close>

theorem CreateGLTexture_fails_iff:
  "((\<exists>s'. CreateGLTexture wrap E filename tg s = Some (False, s')) \<longleftrightarrow>
      (stbi_load E filename = None \<or>
       (\<exists>width height colorChannels.
          stbi_load E filename = Some (width, height, colorChannels) \<and>
          colorChannels \<noteq> 3 \<and> colorChannels \<noteq> 4)))
   \<and> (\<forall>width height colorChannels.
        stbi_load E filename = Some (width, height, colorChannels) \<and>
        (colorChannels = 3 \<or> colorChannels = 4) \<and> in_bounds s (m_loadedTextures s) \<longrightarrow>
        (\<exists>s'. CreateGLTexture wrap E filename tg s = Some (True, s')))"
  using CreateGLTexture_returns_False_iff[of wrap E filename tg s]
    CreateGLTexture_returns_True[of E filename _ _ _ s wrap tg]
  by blast

theorem CreateGLTexture_fails_iff_witness:
  "stbi_load example_backend ''missing.jpg'' = None \<and>
   (\<exists>s'. CreateGLTexture GL_CLAMP_TO_EDGE example_backend ''missing.jpg'' ''m''
            (SceneManager (Ptr 1)) = Some (False, s')) \<and>
   stbi_load example_backend ''gray.png'' = Some (8, 8, 1) \<and>
   (\<exists>s'. CreateGLTexture GL_CLAMP_TO_EDGE example_backend ''gray.png'' ''g''
            (SceneManager (Ptr 1)) = Some (False, s')) \<and>
   stbi_load example_backend ''letterA.png'' = Some (64, 64, 4) \<and>
   in_bounds (SceneManager (Ptr 1) :: matrix_term state) (m_loadedTextures (SceneManager (Ptr 1) :: matrix_term state)) \<and>
   (\<exists>s'. CreateGLTexture GL_CLAMP_TO_EDGE example_backend ''letterA.png'' ''letterA''
            (SceneManager (Ptr 1)) = Some (True, s'))"
proof -
  let ?s0 = "SceneManager (Ptr 1) :: matrix_term state"
  have a: "stbi_load example_backend ''missing.jpg'' = None"
    and b: "stbi_load example_backend ''gray.png'' = Some (8, 8, 1)"
    and c: "stbi_load example_backend ''letterA.png'' = Some (64, 64, 4)"
    by (simp_all add: example_backend_def)
  have ib: "in_bounds ?s0 (m_loadedTextures ?s0)"
    by (simp add: in_bounds_def SceneManager_def)
  show ?thesis
    using CreateGLTexture_fails_iff[of GL_CLAMP_TO_EDGE example_backend "''missing.jpg''" "''m''" ?s0]
      CreateGLTexture_fails_iff[of GL_CLAMP_TO_EDGE example_backend "''gray.png''" "''g''" ?s0]
      CreateGLTexture_fails_iff[of GL_CLAMP_TO_EDGE example_backend "''letterA.png''" "''letterA''" ?s0]
      a b c ib
    by simp
qed

text \<open>
  C7. When \<^verbatim>\<open>CreateGLTexture\<close> returns \<^verbatim>\<open>false\<close>, the texture array and the count of loaded
  textures are what they were before the call.
\<close>

theorem failed_registration_leaves_registry:
  assumes "CreateGLTexture wrap E filename tg s = Some (False, s')"
  shows "m_textureIDs s' = m_textureIDs s \<and> m_loadedTextures s' = m_loadedTextures s"
  using CreateGLTexture_failure[OF assms] by simp

theorem failed_registration_leaves_registry_witness:
  "\<exists>s'. CreateGLTexture GL_REPEAT example_backend ''gray.png'' ''gray'' registered_A_B = Some (False, s') \<and>
         m_loadedTextures registered_A_B < int (length (m_textureIDs registered_A_B)) \<and>
         m_textureIDs s' = m_textureIDs registered_A_B \<and> m_loadedTextures s' = 2"
proof -
  have "stbi_load example_backend ''gray.png'' = Some (8, 8, 1)"
    by (simp add: example_backend_def)
  from CreateGLTexture_unsupported[OF this, of GL_REPEAT "''gray''" registered_A_B]
  obtain s' where s': "CreateGLTexture GL_REPEAT example_backend ''gray.png'' ''gray'' registered_A_B = Some (False, s')"
    by auto
  from failed_registration_leaves_registry[OF s'] s' show ?thesis
    by (auto simp: registered_A_B_fields)
qed

section \<open>Teardown\<close>

lemma DestroyGLTextures_loop_calls:
  assumes "0 \<le> i" "i \<le> m_loadedTextures s"
    and "m_loadedTextures s \<le> int (length (m_textureIDs s))"
  shows "\<exists>s'. DestroyGLTextures_loop E i s = Some s' \<and>
           issued s' = issued s @ replicate (nat (m_loadedTextures s - i)) (glGenTextures 1) \<and>
           m_loadedTextures s' = m_loadedTextures s"
  using assms
proof (induction "nat (m_loadedTextures s - i)" arbitrary: i s)
  case 0
  then have "\<not> i < m_loadedTextures s" by simp
  then show ?case using 0 by (subst DestroyGLTextures_loop.simps) simp
next
  case (Suc n)
  then have lt: "i < m_loadedTextures s" by linarith
  have ib: "in_bounds s i" using lt Suc.prems by (simp add: in_bounds_def)
  define s1 where "s1 = (snd (gen_texture E s))
      \<lparr> m_textureIDs := (m_textureIDs (snd (gen_texture E s)))
           [nat i := (m_textureIDs (snd (gen_texture E s)) ! nat i)\<lparr> ID := fst (gen_texture E s) \<rparr>] \<rparr>"
  have f: "m_loadedTextures s1 = m_loadedTextures s"
    "length (m_textureIDs s1) = length (m_textureIDs s)"
    "issued s1 = issued s @ [glGenTextures 1]"
    by (simp_all add: s1_def)
  have step: "DestroyGLTextures_loop E i s = DestroyGLTextures_loop E (i + 1) s1"
    using lt ib by (subst DestroyGLTextures_loop.simps) (simp add: s1_def split_beta)
  have n: "n = nat (m_loadedTextures s1 - (i + 1))" using Suc.hyps(2) f(1) by linarith
  have "\<exists>s'. DestroyGLTextures_loop E (i + 1) s1 = Some s' \<and>
           issued s' = issued s1 @ replicate (nat (m_loadedTextures s1 - (i + 1))) (glGenTextures 1) \<and>
           m_loadedTextures s' = m_loadedTextures s1"
    using Suc.prems lt f by (intro Suc.hyps(1)[OF n]) simp_all
  then obtain s' where s': "DestroyGLTextures_loop E (i + 1) s1 = Some s'"
    "issued s' = issued s1 @ replicate n (glGenTextures 1)"
    "m_loadedTextures s' = m_loadedTextures s1"
    using n by auto
  have "nat (m_loadedTextures s - i) = Suc n" using Suc.hyps(2) by simp
  then have "issued s' = issued s @ replicate (nat (m_loadedTextures s - i)) (glGenTextures 1)"
    using s'(2) f(3) by simp
  with step s' f show ?case by simp
qed

text \<open>
  C4. On a registry within its array, \<^verbatim>\<open>DestroyGLTextures\<close> returns after issuing
  \<^verbatim>\<open>glGenTextures(1, ...)\<close> once for each of the \<open>m_loadedTextures\<close> used slots and nothing
  else: no \<^verbatim>\<open>glDeleteTextures\<close> call is among the calls it issues.
\<close>

theorem DestroyGLTextures_generates:
  assumes "registry_ok s"
  shows "\<exists>s'. DestroyGLTextures E s = Some s' \<and>
           issued s' = issued s @ replicate (nat (m_loadedTextures s)) (glGenTextures 1) \<and>
           (\<forall>n h. glDeleteTextures n h \<notin> set (drop (length (issued s)) (issued s')))"
proof -
  from DestroyGLTextures_loop_calls[of 0 s E] assms
  obtain s' where s': "DestroyGLTextures_loop E 0 s = Some s'"
    "issued s' = issued s @ replicate (nat (m_loadedTextures s)) (glGenTextures 1)"
    by (auto simp: registry_ok_def)
  then show ?thesis by (auto simp: DestroyGLTextures_def)
qed

theorem DestroyGLTextures_generates_witness:
  "registry_ok registered_A_B \<and>
   (\<exists>s'. DestroyGLTextures example_backend registered_A_B = Some s' \<and>
      issued s' = issued registered_A_B @ [glGenTextures 1, glGenTextures 1])"
  using DestroyGLTextures_generates[OF registered_A_B_ok, of example_backend]
    registered_A_B_ok
  by (auto simp: registered_A_B_fields numeral_2_eq_2)

section \<open>Model matrix\<close>

lemma linear_part_vadd: "linear_part M (vadd u v) = vadd (linear_part M u) (linear_part M v)"
proof -
  obtain a b c where u: "u = (a, b, c)" by (cases u) auto
  obtain x y z where v: "v = (x, y, z)" by (cases v) auto
  obtain p1 p2 p3 where p: "col_x M = (p1, p2, p3)" by (cases "col_x M") auto
  obtain q1 q2 q3 where q: "col_y M = (q1, q2, q3)" by (cases "col_y M") auto
  obtain r1 r2 r3 where r: "col_z M = (r1, r2, r3)" by (cases "col_z M") auto
  show ?thesis by (simp add: u v p q r algebra_simps)
qed

lemma linear_part_vscale: "linear_part M (vscale k v) = vscale k (linear_part M v)"
proof -
  obtain x y z where v: "v = (x, y, z)" by (cases v) auto
  obtain p1 p2 p3 where p: "col_x M = (p1, p2, p3)" by (cases "col_x M") auto
  obtain q1 q2 q3 where q: "col_y M = (q1, q2, q3)" by (cases "col_y M") auto
  obtain r1 r2 r3 where r: "col_z M = (r1, r2, r3)" by (cases "col_z M") auto
  show ?thesis by (simp add: v p q r algebra_simps)
qed

lemma vadd_assoc: "vadd (vadd u v) w = vadd u (vadd v w)"
  by (cases u, cases v, cases w) simp

lemma transform_mat4_mul: "transform (mat4_mul A B) v = transform A (transform B v)"
proof -
  obtain x y z where v: "v = (x, y, z)" by (cases v) auto
  have "transform (mat4_mul A B) v =
     vadd (vadd (vadd (vscale x (linear_part A (col_x B))) (vscale y (linear_part A (col_y B))))
                (vscale z (linear_part A (col_z B))))
          (vadd (linear_part A (col_w B)) (col_w A))"
    by (simp add: transform_def mat4_mul_def v)
  also have "\<dots> = vadd (linear_part A (vadd (linear_part B v) (col_w B))) (col_w A)"
    by (simp add: v linear_part_vadd linear_part_vscale vadd_assoc)
  finally show ?thesis by (simp add: transform_def)
qed

lemma glm_exact_ops:
  "mat_mul glm_exact = mat4_mul"
  "glm_radians glm_exact d = d * pi / 180"
  "glm_translate glm_exact t =
     \<lparr> col_x = (1, 0, 0), col_y = (0, 1, 0), col_z = (0, 0, 1), col_w = t \<rparr>"
  "glm_scale glm_exact (x, y, z) =
     \<lparr> col_x = (x, 0, 0), col_y = (0, y, 0), col_z = (0, 0, z), col_w = (0, 0, 0) \<rparr>"
  "glm_rotate glm_exact a k =
     \<lparr> col_x = rotate_vec a k (1, 0, 0), col_y = rotate_vec a k (0, 1, 0),
       col_z = rotate_vec a k (0, 0, 1), col_w = (0, 0, 0) \<rparr>"
  by (simp_all add: glm_exact_def)

lemma rotate_quarter_turns:
  "rotate_vec (pi / 2) (1, 0, 0) (x, y, z) = (x, - z, y)"
  "rotate_vec (pi / 2) (0, 1, 0) (x, y, z) = (z, y, - x)"
  "rotate_vec (pi / 2) (0, 0, 1) (x, y, z) = (- y, x, z)"
  "rotate_vec 0 k v = v"
  by (cases v; simp add: rotate_vec_def normalize_def; cases "normalize k"; simp add: normalize_def)+

text \<open>The spec's identity case: the linear part is the identity, the translation column (2, 3, 4).\<close>

lemma glm_exact_identity_case:
  "issued (SetTransformations glm_exact (1, 1, 1) 0 0 0 (2, 3, 4) (SceneManager (Ptr 1))) =
     [ setMat4Value ''model''
         \<lparr> col_x = (1, 0, 0), col_y = (0, 1, 0), col_z = (0, 0, 1), col_w = (2, 3, 4) \<rparr> ]"
  by (simp add: SetTransformations_def Let_def emit_def SceneManager_def glm_exact_ops
      rotate_quarter_turns mat4_mul_def transform_def)

lemma SetTransformations_product:
  assumes "NULL \<noteq> m_pShaderManager s"
  shows "SetTransformations E scaleXYZ XrotationDegrees YrotationDegrees ZrotationDegrees positionXYZ s =
     s\<lparr> issued := issued s @
        [ setMat4Value ''model''
            (mat_mul E
               (mat_mul E
                  (mat_mul E
                     (mat_mul E (glm_translate E positionXYZ)
                        (glm_rotate E (glm_radians E XrotationDegrees) (1, 0, 0)))
                     (glm_rotate E (glm_radians E YrotationDegrees) (0, 1, 0)))
                  (glm_rotate E (glm_radians E ZrotationDegrees) (0, 0, 1)))
               (glm_scale E scaleXYZ)) ] \<rparr>"
  using assms by (simp add: SetTransformations_def Let_def emit_def)

text \<open>
  With GLM in exact arithmetic, scale (1, 1, 1), rotations (90, 90, 0) and no translation, the
  uploaded matrix takes the vertex (0, 0, 1) to (1, 0, 0); scaling, then rotating about X,
  about Y and about Z in that order takes it to (0, -1, 0).
\<close>

theorem rotation_order_counterexample:
  "issued (SetTransformations glm_exact (1, 1, 1) 90 90 0 (0, 0, 0) (SceneManager (Ptr 1))) =
     [ setMat4Value ''model''
         \<lparr> col_x = (0, 1, 0), col_y = (0, 0, 1), col_z = (1, 0, 0), col_w = (0, 0, 0) \<rparr> ] \<and>
   transform \<lparr> col_x = (0, 1, 0), col_y = (0, 0, 1), col_z = (1, 0, 0), col_w = (0, 0, 0) \<rparr>
     (0, 0, 1) = (1, 0, 0) \<and>
   scale_X_Y_Z_translate glm_exact transform (1, 1, 1) 90 90 0 (0, 0, 0) (0, 0, 1) = (0, - 1, 0) \<and>
   transform \<lparr> col_x = (0, 1, 0), col_y = (0, 0, 1), col_z = (1, 0, 0), col_w = (0, 0, 0) \<rparr>
     (0, 0, 1) \<noteq>
   scale_X_Y_Z_translate glm_exact transform (1, 1, 1) 90 90 0 (0, 0, 0) (0, 0, 1)"
  by (simp add: SetTransformations_def Let_def emit_def SceneManager_def glm_exact_ops
      rotate_quarter_turns mat4_mul_def transform_def scale_X_Y_Z_translate_def)

text \<open>
  C5. With a shader manager attached, \<^verbatim>\<open>SetTransformations\<close> uploads to the uniform
  \<^verbatim>\<open>"model"\<close> exactly one matrix, the product
  translate(position) * rotate(radians(x), X) * rotate(radians(y), Y) * rotate(radians(z), Z) * scale(scale),
  associated to the left as C++ evaluates it, whatever GLM's operations compute. Where the
  product of two matrices acts on a vertex as the right factor followed by the left one,
  the uploaded matrix scales first, then rotates about Z, about Y and about X in that order,
  then translates.
\<close>

theorem SetTransformations_model_matrix:
  assumes "NULL \<noteq> m_pShaderManager s"
    and "\<forall>A B u. act (mat_mul E A B) u = act A (act B u)"
  shows "SetTransformations E scaleXYZ XrotationDegrees YrotationDegrees ZrotationDegrees positionXYZ s =
     s\<lparr> issued := issued s @
        [ setMat4Value ''model''
            (mat_mul E
               (mat_mul E
                  (mat_mul E
                     (mat_mul E (glm_translate E positionXYZ)
                        (glm_rotate E (glm_radians E XrotationDegrees) (1, 0, 0)))
                     (glm_rotate E (glm_radians E YrotationDegrees) (0, 1, 0)))
                  (glm_rotate E (glm_radians E ZrotationDegrees) (0, 0, 1)))
               (glm_scale E scaleXYZ)) ] \<rparr>
   \<and> act (mat_mul E
               (mat_mul E
                  (mat_mul E
                     (mat_mul E (glm_translate E positionXYZ)
                        (glm_rotate E (glm_radians E XrotationDegrees) (1, 0, 0)))
                     (glm_rotate E (glm_radians E YrotationDegrees) (0, 1, 0)))
                  (glm_rotate E (glm_radians E ZrotationDegrees) (0, 0, 1)))
               (glm_scale E scaleXYZ)) v =
       act (glm_translate E positionXYZ)
         (act (glm_rotate E (glm_radians E XrotationDegrees) (1, 0, 0))
            (act (glm_rotate E (glm_radians E YrotationDegrees) (0, 1, 0))
               (act (glm_rotate E (glm_radians E ZrotationDegrees) (0, 0, 1))
                  (act (glm_scale E scaleXYZ) v))))"
  using SetTransformations_product[OF assms(1)] assms(2) by simp

theorem SetTransformations_model_matrix_witness:
  "NULL \<noteq> m_pShaderManager (SceneManager (Ptr 1) :: mat4 state) \<and>
   (\<forall>A B u. transform (mat_mul glm_exact A B) u = transform A (transform B u)) \<and>
   issued (SetTransformations glm_exact (2, 3, 2) 90 90 0 (4, 0, 0) (SceneManager (Ptr 1))) =
     [ setMat4Value ''model''
         \<lparr> col_x = (0, 2, 0), col_y = (0, 0, 3), col_z = (2, 0, 0), col_w = (4, 0, 0) \<rparr> ] \<and>
   transform \<lparr> col_x = (0, 2, 0), col_y = (0, 0, 3), col_z = (2, 0, 0), col_w = (4, 0, 0) \<rparr>
     (0, 0, 1) = (6, 0, 0) \<and>
   transform (glm_translate glm_exact (4, 0, 0))
     (transform (glm_rotate glm_exact (glm_radians glm_exact 90) (1, 0, 0))
        (transform (glm_rotate glm_exact (glm_radians glm_exact 90) (0, 1, 0))
           (transform (glm_rotate glm_exact (glm_radians glm_exact 0) (0, 0, 1))
              (transform (glm_scale glm_exact (2, 3, 2)) (0, 0, 1))))) = (6, 0, 0)"
proof -
  have p: "NULL \<noteq> m_pShaderManager (SceneManager (Ptr 1) :: mat4 state)"
    by (simp add: SceneManager_def)
  have c: "\<forall>A B u. transform (mat_mul glm_exact A B) u = transform A (transform B u)"
    by (simp add: glm_exact_ops transform_mat4_mul)
  have i: "issued (SceneManager (Ptr 1) :: mat4 state) = []"
    by (simp add: SceneManager_def)
  have m: "mat_mul glm_exact
               (mat_mul glm_exact
                  (mat_mul glm_exact
                     (mat_mul glm_exact (glm_translate glm_exact (4, 0, 0))
                        (glm_rotate glm_exact (glm_radians glm_exact 90) (1, 0, 0)))
                     (glm_rotate glm_exact (glm_radians glm_exact 90) (0, 1, 0)))
                  (glm_rotate glm_exact (glm_radians glm_exact 0) (0, 0, 1)))
               (glm_scale glm_exact (2, 3, 2)) =
        \<lparr> col_x = (0, 2, 0), col_y = (0, 0, 3), col_z = (2, 0, 0), col_w = (4, 0, 0) \<rparr>"
    by (simp add: glm_exact_ops rotate_quarter_turns mat4_mul_def transform_def)
  show ?thesis
    using SetTransformations_model_matrix[OF p c, of "(2, 3, 2)" 90 90 0 "(4, 0, 0)" "(0, 0, 1)"] p c i
    by (simp add: m) (simp add: transform_def)
qed

section \<open>Texture selection\<close>

lemma SetShaderTexture_no_match:
  assumes "registry_ok s" "NULL \<noteq> m_pShaderManager s" "no_match s tg"
  shows "SetShaderTexture tg s = Some (s\<lparr> issued := issued s @ [setIntValue ''bUseTexture'' 1] \<rparr>)"
proof -
  let ?s1 = "emit (setIntValue ''bUseTexture'' 1) s"
  have ok1: "registry_ok ?s1" using assms(1) by (simp add: registry_ok_def)
  have "no_match ?s1 tg" using assms(3) by (simp add: no_match_def)
  from FindTextureSlot_no_match[OF ok1 this] assms(2) show ?thesis
    by (simp add: SetShaderTexture_def Let_def emit_def)
qed

lemma SetShaderTexture_first_match:
  assumes "registry_ok s" "NULL \<noteq> m_pShaderManager s" "first_match s tg i"
  shows "SetShaderTexture tg s = Some (s\<lparr> issued := issued s @
              [ setIntValue ''bUseTexture'' 1,
                glActiveTexture (int i),
                glBindTexture GL_TEXTURE_2D (ID (m_textureIDs s ! i)),
                setSampler2DValue ''objectTexture'' (int i) ] \<rparr>)"
proof -
  let ?s1 = "emit (setIntValue ''bUseTexture'' 1) s"
  have ok1: "registry_ok ?s1" using assms(1) by (simp add: registry_ok_def)
  have fm1: "first_match ?s1 tg i" using assms(3) by (simp add: first_match_def)
  have ib: "in_bounds s (int i)"
    using assms(1,3) unfolding first_match_def registry_ok_def in_bounds_def by linarith
  from FindTextureSlot_first_match[OF ok1 fm1] assms(2) ib[unfolded in_bounds_def] show ?thesis
    by (simp add: SetShaderTexture_def Let_def texture_at_def in_bounds_def emit_def)
qed

text \<open>
  C10. With a shader manager attached and the registry within its array,
  \<^verbatim>\<open>SetShaderTexture\<close> for a tag that no used slot carries sets \<^verbatim>\<open>bUseTexture\<close> to true and
  issues nothing else: no \<^verbatim>\<open>glActiveTexture\<close>, no \<^verbatim>\<open>glBindTexture\<close>, no sampler upload. For a
  registered tag it then activates the unit of the first matching slot, binds that slot's
  texture and uploads the slot as the sampler.
\<close>

theorem SetShaderTexture_calls:
  assumes "registry_ok s" "NULL \<noteq> m_pShaderManager s"
  shows "(no_match s tg \<longrightarrow>
            SetShaderTexture tg s = Some (s\<lparr> issued := issued s @ [setIntValue ''bUseTexture'' 1] \<rparr>))
       \<and> (first_match s tg i \<longrightarrow>
            SetShaderTexture tg s = Some (s\<lparr> issued := issued s @
              [ setIntValue ''bUseTexture'' 1,
                glActiveTexture (int i),
                glBindTexture GL_TEXTURE_2D (ID (m_textureIDs s ! i)),
                setSampler2DValue ''objectTexture'' (int i) ] \<rparr>))"
  using SetShaderTexture_no_match[OF assms, of tg] SetShaderTexture_first_match[OF assms, of tg i]
  by blast

theorem SetShaderTexture_calls_witness:
  "registry_ok registered_A_B \<and> NULL \<noteq> m_pShaderManager registered_A_B \<and>
   no_match registered_A_B ''C'' \<and> first_match registered_A_B ''B'' 1 \<and>
   SetShaderTexture ''C'' registered_A_B =
     Some (registered_A_B\<lparr> issued := issued registered_A_B @ [setIntValue ''bUseTexture'' 1] \<rparr>) \<and>
   SetShaderTexture ''B'' registered_A_B =
     Some (registered_A_B\<lparr> issued := issued registered_A_B @
       [ setIntValue ''bUseTexture'' 1, glActiveTexture 1, glBindTexture GL_TEXTURE_2D 2,
         setSampler2DValue ''objectTexture'' 1 ] \<rparr>)"
proof -
  have p: "NULL \<noteq> m_pShaderManager registered_A_B" by (simp add: registered_A_B_fields)
  show ?thesis
    using SetShaderTexture_calls[OF registered_A_B_ok p, of "''C''" 0]
      SetShaderTexture_calls[OF registered_A_B_ok p, of "''B''" 1]
      registered_A_B_ok p registered_A_B_matches
    by (simp add: registered_A_B_fields)
qed

section \<open>Replay\<close>

lemma steps_id: "steps (\<lambda>s. s) s []"
  by (simp add: steps_def)

lemma steps_emit:
  assumes "steps A s cmds"
  shows "steps (\<lambda>s. emit c (A s)) s (cmds @ [c])"
  using assms by (simp add: steps_def emit_def)

lemma steps_SetTransformations:
  assumes "steps A s cmds"
  shows "steps (\<lambda>s. SetTransformations E sc x y z pos (A s)) s
           (cmds @ issued (SetTransformations E sc x y z pos (s\<lparr>issued := []\<rparr>)))"
  using assms by (simp add: steps_def SetTransformations_def Let_def emit_def)

lemma steps_SetShaderColor:
  assumes "steps A s cmds"
  shows "steps (\<lambda>s. SetShaderColor r g b a (A s)) s
           (cmds @ issued (SetShaderColor r g b a (s\<lparr>issued := []\<rparr>)))"
  using assms by (simp add: steps_def SetShaderColor_def Let_def emit_def)

lemma steps_SetTextureUVScale:
  assumes "steps A s cmds"
  shows "steps (\<lambda>s. SetTextureUVScale u v (A s)) s
           (cmds @ issued (SetTextureUVScale u v (s\<lparr>issued := []\<rparr>)))"
  using assms by (simp add: steps_def SetTextureUVScale_def emit_def)

lemma replays_Some:
  assumes "steps A s cmds"
  shows "replays (\<lambda>s. Some (A s)) s cmds"
  using assms by (simp add: steps_def replays_def)

lemma replays_bind:
  assumes "replays f s c1" "replays g s c2"
  shows "replays (\<lambda>s. Option.bind (f s) g) s (c1 @ c2)"
  using assms by (simp add: replays_def)

lemma SetShaderTexture_history:
  assumes "registry_ok s"
  shows "\<exists>cmds. \<forall>h. SetShaderTexture tg (s\<lparr>issued := h\<rparr>) = Some (s\<lparr>issued := h @ cmds\<rparr>)"
proof (cases "NULL \<noteq> m_pShaderManager s")
  case False
  then have "\<forall>h. SetShaderTexture tg (s\<lparr>issued := h\<rparr>) = Some (s\<lparr>issued := h @ []\<rparr>)"
    by (simp add: SetShaderTexture_def)
  then show ?thesis by blast
next
  case True
  have ok: "registry_ok (s\<lparr>issued := h\<rparr>)" for h
    using assms by (simp add: registry_ok_def)
  from first_match_or_no_match[of s tg] show ?thesis
  proof
    assume nm: "no_match s tg"
    have "SetShaderTexture tg (s\<lparr>issued := h\<rparr>) =
            Some (s\<lparr>issued := h @ [setIntValue ''bUseTexture'' 1]\<rparr>)" for h
    proof -
      have "no_match (s\<lparr>issued := h\<rparr>) tg" using nm by (simp add: no_match_def)
      with SetShaderTexture_no_match[OF ok, of h tg] True show ?thesis by simp
    qed
    then show ?thesis by blast
  next
    assume "\<exists>i. first_match s tg i"
    then obtain i where fm: "first_match s tg i" by blast
    have "SetShaderTexture tg (s\<lparr>issued := h\<rparr>) =
            Some (s\<lparr>issued := h @ [ setIntValue ''bUseTexture'' 1, glActiveTexture (int i),
                glBindTexture GL_TEXTURE_2D (ID (m_textureIDs s ! i)),
                setSampler2DValue ''objectTexture'' (int i) ]\<rparr>)" for h
    proof -
      have "first_match (s\<lparr>issued := h\<rparr>) tg i" using fm by (simp add: first_match_def)
      with SetShaderTexture_first_match[OF ok, of h tg i] True show ?thesis by simp
    qed
    then show ?thesis by blast
  qed
qed

lemma replays_SetShaderTexture:
  assumes "registry_ok s" "steps A s cmds"
  shows "replays (\<lambda>s. SetShaderTexture tg (A s)) s
           (cmds @ issued (the (SetShaderTexture tg (s\<lparr>issued := []\<rparr>))))"
proof -
  from SetShaderTexture_history[OF assms(1), of tg] obtain c where
    c: "\<And>h. SetShaderTexture tg (s\<lparr>issued := h\<rparr>) = Some (s\<lparr>issued := h @ c\<rparr>)" by blast
  have "issued (the (SetShaderTexture tg (s\<lparr>issued := []\<rparr>))) = c"
    using c[of "[]"] by simp
  then show ?thesis using assms(2) c by (simp add: replays_def steps_def)
qed

lemmas replay_rules =
  replays_bind replays_SetShaderTexture replays_Some
  steps_emit steps_SetTransformations steps_SetShaderColor steps_SetTextureUVScale steps_id

lemma RenderScene_Module3_replays: "\<exists>cmds. replays (RenderScene_Module3 E) s cmds"
  unfolding RenderScene_Module3_def[abs_def] Let_def
  by (rule exI) (rule replay_rules)+

lemma RenderScene_replays:
  assumes "registry_ok s"
  shows "\<exists>cmds. replays (RenderScene E) s cmds"
  unfolding RenderScene_def[abs_def] Let_def
  by (rule exI) (rule replay_rules assms)+

text \<open>
  C8. For every state of the scene manager whose registry is within its array, there is one
  sequence of calls that \<^verbatim>\<open>RenderScene\<close> issues whatever was issued before it, leaving every
  member unchanged; so a second invocation right after the first issues the same sequence
  again. This holds for the scene of Module 7 and for the scene of Module 3.
\<close>

theorem RenderScene_twice_identical:
  assumes "registry_ok s"
  shows "(\<exists>cmds. \<forall>h.
            RenderScene E (s\<lparr>issued := h\<rparr>) = Some (s\<lparr>issued := h @ cmds\<rparr>) \<and>
            RenderScene E (s\<lparr>issued := h @ cmds\<rparr>) = Some (s\<lparr>issued := h @ cmds @ cmds\<rparr>))
       \<and> (\<exists>cmds. \<forall>h.
            RenderScene_Module3 E (s\<lparr>issued := h\<rparr>) = Some (s\<lparr>issued := h @ cmds\<rparr>) \<and>
            RenderScene_Module3 E (s\<lparr>issued := h @ cmds\<rparr>) = Some (s\<lparr>issued := h @ cmds @ cmds\<rparr>))"
proof -
  have twice: "\<exists>cmds. \<forall>h. f (s\<lparr>issued := h\<rparr>) = Some (s\<lparr>issued := h @ cmds\<rparr>) \<and>
            f (s\<lparr>issued := h @ cmds\<rparr>) = Some (s\<lparr>issued := h @ cmds @ cmds\<rparr>)"
    if "\<exists>cmds. replays f s cmds" for f :: "'a state \<Rightarrow> 'a state option"
  proof -
    from that obtain cmds where "replays f s cmds" by blast
    then have "\<forall>h. f (s\<lparr>issued := h\<rparr>) = Some (s\<lparr>issued := h @ cmds\<rparr>) \<and>
            f (s\<lparr>issued := h @ cmds\<rparr>) = Some (s\<lparr>issued := h @ cmds @ cmds\<rparr>)"
      by (simp add: replays_def)
    then show ?thesis by blast
  qed
  show ?thesis
    using twice[OF RenderScene_replays[OF assms, of E]] twice[OF RenderScene_Module3_replays[of E s]]
    by blast
qed

theorem RenderScene_twice_identical_witness:
  "registry_ok registered_A_B \<and>
   (\<exists>cmds. \<forall>h.
      RenderScene example_backend (registered_A_B\<lparr>issued := h\<rparr>) =
        Some (registered_A_B\<lparr>issued := h @ cmds\<rparr>) \<and>
      RenderScene example_backend (registered_A_B\<lparr>issued := h @ cmds\<rparr>) =
        Some (registered_A_B\<lparr>issued := h @ cmds @ cmds\<rparr>))"
  using RenderScene_twice_identical[OF registered_A_B_ok, of example_backend] registered_A_B_ok
  by simp

end
